theory Spec2Isabelle
  imports Main "HOL-Library.Word"
begin

unbundle bit_operations_syntax

section \<open>Data model (include/kernel/process.h)\<close>

type_synonym u8 = "8 word"
type_synonym u16 = "16 word"
type_synonym u32 = "32 word"
type_synonym u64 = "64 word"

text \<open>
  A \<open>struct process *\<close> is an address; \<open>NULL\<close> is \<open>None\<close> of \<open>ptr option\<close>.
  The objects live in a store (\<open>procs\<close> below), so that two pointers to the same
  object alias as they do in C.
\<close>

type_synonym ptr = nat

datatype process_state_t =
    PROCESS_CREATED | PROCESS_READY | PROCESS_RUNNING | PROCESS_BLOCKED
  | PROCESS_SLEEPING | PROCESS_ZOMBIE | PROCESS_TERMINATED

datatype process_priority_t =
    PRIORITY_IDLE | PRIORITY_LOW | PRIORITY_NORMAL | PRIORITY_HIGH | PRIORITY_REALTIME

text \<open>The integer value of the enumerators of \<open>process_priority_t\<close>.\<close>

fun priority_val :: "process_priority_t \<Rightarrow> nat" where
  "priority_val PRIORITY_IDLE = 0"
| "priority_val PRIORITY_LOW = 1"
| "priority_val PRIORITY_NORMAL = 2"
| "priority_val PRIORITY_HIGH = 3"
| "priority_val PRIORITY_REALTIME = 4"

datatype scheduler_algorithm_t = SCHED_ROUND_ROBIN | SCHED_PRIORITY | SCHED_CFS

definition MAX_PROCESSES :: nat where "MAX_PROCESSES = 256"
definition DEFAULT_TIME_SLICE :: u32 where "DEFAULT_TIME_SLICE = 10"
definition PROCESS_STACK_SIZE :: u64 where "PROCESS_STACK_SIZE = 8 * 1024"
definition PROCESS_HEAP_SIZE :: u64 where "PROCESS_HEAP_SIZE = 64 * 1024"

text \<open>The registers that \<open>process_create\<close> writes; the others stay zero.\<close>

record cpu_context =
  rsp :: u64
  rip :: u64
  rflags :: u64
  cr3 :: u64
  cs :: u16
  ds :: u16

definition zero_context :: cpu_context where
  "zero_context = \<lparr> rsp = 0, rip = 0, rflags = 0, cr3 = 0, cs = 0, ds = 0 \<rparr>"

datatype neural_priority_t =
    NEURAL_PRIORITY_CRITICAL | NEURAL_PRIORITY_HIGH | NEURAL_PRIORITY_NORMAL
  | NEURAL_PRIORITY_LOW | NEURAL_PRIORITY_BACKGROUND | NEURAL_PRIORITY_IDLE

text \<open>\<open>struct process_sched_stats\<close> (advanced_scheduler.c); \<open>nice_value\<close> is a C int.\<close>

record process_sched_stats =
  runtime :: u64
  wait_time :: u64
  neural_cycles :: u64
  ss_context_switches :: u32
  preemptions :: u32
  last_runtime :: u64
  vruntime :: u64
  neural_class :: neural_priority_t
  nice_value :: int
  deadline :: u64
  neural_affinity :: u32

text \<open>
  \<open>struct process\<close>. The fields \<open>next\<close>, \<open>prev\<close> and \<open>context\<close> of the source are
  called \<open>p_next\<close>, \<open>p_prev\<close> and \<open>p_context\<close> here. \<open>page_directory\<close> is an opaque
  handle, \<open>message_queue\<close> the address of a \<open>struct message_queue\<close>.
\<close>

text \<open>
  Modelled from the spec: the fields \<open>next_in_queue\<close> and \<open>sched_stats\<close> of
  \<open>struct process\<close>. advanced_scheduler.c reads and writes them, and
  include/kernel/process.h does not declare them. The spec gives a process a second set
  of queue-link fields, for the per-core queue, and an optional, lazily allocated
  scheduling-statistics block that the process owns: \<open>next_in_queue\<close> is a pointer to a
  process or null, \<open>sched_stats\<close> the block itself or \<open>None\<close> for the null pointer.
\<close>

record process =
  pid :: u32
  ppid :: u32
  name :: string
  state :: process_state_t
  priority :: process_priority_t
  time_slice :: u32
  cpu_time :: u64
  creation_time :: u64
  page_directory :: "nat option"
  stack_base :: u64
  stack_size :: u64
  heap_base :: u64
  heap_size :: u64
  p_context :: cpu_context
  parent :: "ptr option"
  p_next :: "ptr option"
  p_prev :: "ptr option"
  last_scheduled :: u64
  sleep_until :: u32
  message_queue :: "ptr option"
  context_switches :: u64
  next_in_queue :: "ptr option"
  sched_stats :: "process_sched_stats option"

text \<open>What \<open>memory_set(proc, 0, sizeof(struct process))\<close> leaves.\<close>

definition zero_process :: process where
  "zero_process = \<lparr> pid = 0, ppid = 0, name = [], state = PROCESS_CREATED,
     priority = PRIORITY_IDLE, time_slice = 0, cpu_time = 0, creation_time = 0,
     page_directory = None, stack_base = 0, stack_size = 0, heap_base = 0, heap_size = 0,
     p_context = zero_context, parent = None, p_next = None, p_prev = None,
     last_scheduled = 0, sleep_until = 0, message_queue = None, context_switches = 0,
     next_in_queue = None, sched_stats = None \<rparr>"

record scheduler_stats =
  total_processes :: u64
  active_processes :: u64
  st_context_switches :: u64

text \<open>\<open>struct ipc_message\<close> and \<open>struct message_queue\<close> (ipc.c). A byte array is a
  function from the offset to the byte.\<close>

record ipc_message =
  sender_pid :: u32
  msg_size :: u32
  msg_data :: "nat \<Rightarrow> u8"
  msg_next :: "ptr option"

record message_queue =
  q_head :: "ptr option"
  q_tail :: "ptr option"
  q_count :: u32

text \<open>The calls to the memory service that acquire or release a resource.\<close>

datatype mem_event =
    Kmalloc ptr | Kfree ptr
  | CreateAddressSpace nat | DestroyAddressSpace nat
  | VmmAlloc u64 | VmmFree u64

text \<open>
  The globals of process.c, scheduler.c and ipc.c, the timer's tick counter, and the
  memory the structs live in. \<open>process_table\<close> and \<open>priority_queues\<close> are arrays:
  functions from the index. \<open>global_sched_stats\<close> is the static \<open>sched_stats\<close> of
  process.c.
\<close>

record kernel =
  procs :: "ptr \<Rightarrow> process"
  messages :: "ptr \<Rightarrow> ipc_message"
  queues :: "ptr \<Rightarrow> message_queue"
  timer_ticks :: u64
  current_process :: "ptr option"
  next_pid :: u32
  active_process_count :: u32
  global_sched_stats :: scheduler_stats
  process_table :: "nat \<Rightarrow> ptr option"
  current_algorithm :: scheduler_algorithm_t
  ready_queue_head :: "ptr option"
  ready_queue_tail :: "ptr option"
  running_process :: "ptr option"
  last_schedule_time :: u64
  time_slice_counter :: u32
  priority_queues :: "nat \<Rightarrow> ptr option"
  mem_log :: "mem_event list"

text \<open>\<open>proc->field = v\<close>: an update of the object at address \<open>p\<close>.\<close>

definition upd_proc :: "ptr \<Rightarrow> (process \<Rightarrow> process) \<Rightarrow> kernel \<Rightarrow> kernel" where
  "upd_proc p f s = s\<lparr>procs := (procs s)(p := f (procs s p))\<rparr>"

definition timer_get_ticks :: "kernel \<Rightarrow> u64" where
  "timer_get_ticks s = timer_ticks s"

definition process_get_current :: "kernel \<Rightarrow> ptr option" where
  "process_get_current s = current_process s"

section \<open>The classic scheduler (kernel/process/scheduler.c)\<close>

text \<open>\<open>scheduler_init\<close>: the serial output is not modelled.\<close>

definition scheduler_init :: "kernel \<Rightarrow> kernel" where
  "scheduler_init s =
     (let s1 = s\<lparr>ready_queue_head := None, ready_queue_tail := None,
                  running_process := None\<rparr>;
          s2 = s1\<lparr>priority_queues :=
                    fold (\<lambda>i q. q(i := None)) [0..<5] (priority_queues s1)\<rparr>
      in s2\<lparr>last_schedule_time := timer_get_ticks s2, time_slice_counter := 0\<rparr>)"

definition scheduler_set_algorithm :: "scheduler_algorithm_t \<Rightarrow> kernel \<Rightarrow> kernel" where
  "scheduler_set_algorithm algorithm s = scheduler_init (s\<lparr>current_algorithm := algorithm\<rparr>)"

text \<open>
  \<open>scheduler_add_process\<close>. Interrupts are disabled around the queue manipulation; on
  the one core the model runs on nothing else is observed of that. The loop of the
  sorted insert (SCHED_CFS) follows \<open>next\<close> pointers and need not end on a cyclic
  list: \<open>None\<close> is that it does not return.
\<close>

partial_function (option) cfs_find_position :: "(ptr \<Rightarrow> process) \<Rightarrow> u64 \<Rightarrow> ptr \<Rightarrow> ptr option" where
  "cfs_find_position h key current =
     (case p_next (h current) of
        None \<Rightarrow> Some current
      | Some n \<Rightarrow> if cpu_time (h n) < key then cfs_find_position h key n else Some current)"

definition add_round_robin :: "ptr \<Rightarrow> kernel \<Rightarrow> kernel" where
  "add_round_robin proc s =
     (let s1 = upd_proc proc (\<lambda>p. p\<lparr>p_next := None\<rparr>) s;
          s2 = upd_proc proc (\<lambda>p. p\<lparr>p_prev := ready_queue_tail s1\<rparr>) s1;
          s3 = (case ready_queue_tail s2 of
                  Some t \<Rightarrow> upd_proc t (\<lambda>p. p\<lparr>p_next := Some proc\<rparr>) s2
                | None \<Rightarrow> s2\<lparr>ready_queue_head := Some proc\<rparr>)
      in s3\<lparr>ready_queue_tail := Some proc\<rparr>)"

definition add_priority :: "ptr \<Rightarrow> kernel \<Rightarrow> kernel" where
  "add_priority proc s =
     (if priority_val (priority (procs s proc)) < 5 then
        (let s1 = upd_proc proc
                    (\<lambda>p. p\<lparr>p_next := priority_queues s (priority_val (priority (procs s proc)))\<rparr>) s
         in s1\<lparr>priority_queues :=
                 (priority_queues s1)(priority_val (priority (procs s1 proc)) := Some proc)\<rparr>)
      else s)"

definition add_cfs_front :: "ptr \<Rightarrow> kernel \<Rightarrow> kernel" where
  "add_cfs_front proc s =
     (let s1 = upd_proc proc (\<lambda>p. p\<lparr>p_next := ready_queue_head s\<rparr>) s;
          s2 = (case ready_queue_head s1 of
                  Some h \<Rightarrow> upd_proc h (\<lambda>p. p\<lparr>p_prev := Some proc\<rparr>) s1
                | None \<Rightarrow> s1);
          s3 = s2\<lparr>ready_queue_head := Some proc\<rparr>;
          s4 = upd_proc proc (\<lambda>p. p\<lparr>p_prev := None\<rparr>) s3
      in (case ready_queue_tail s4 of
            None \<Rightarrow> s4\<lparr>ready_queue_tail := Some proc\<rparr>
          | Some t \<Rightarrow> s4))"

definition add_cfs_after :: "ptr \<Rightarrow> ptr \<Rightarrow> kernel \<Rightarrow> kernel" where
  "add_cfs_after current proc s =
     (let s1 = upd_proc proc (\<lambda>p. p\<lparr>p_next := p_next (procs s current)\<rparr>) s;
          s2 = upd_proc proc (\<lambda>p. p\<lparr>p_prev := Some current\<rparr>) s1;
          s3 = (case p_next (procs s2 current) of
                  Some n \<Rightarrow> upd_proc n (\<lambda>p. p\<lparr>p_prev := Some proc\<rparr>) s2
                | None \<Rightarrow> s2\<lparr>ready_queue_tail := Some proc\<rparr>)
      in upd_proc current (\<lambda>p. p\<lparr>p_next := Some proc\<rparr>) s3)"

definition add_cfs :: "ptr \<Rightarrow> kernel \<Rightarrow> kernel option" where
  "add_cfs proc s =
     (case ready_queue_head s of
        None \<Rightarrow> Some (add_cfs_front proc s)
      | Some h \<Rightarrow>
          if cpu_time (procs s proc) \<le> cpu_time (procs s h) then Some (add_cfs_front proc s)
          else (case cfs_find_position (procs s) (cpu_time (procs s proc)) h of
                  None \<Rightarrow> None
                | Some current \<Rightarrow> Some (add_cfs_after current proc s)))"

definition scheduler_add_process :: "ptr option \<Rightarrow> kernel \<Rightarrow> kernel option" where
  "scheduler_add_process po s =
     (case po of
        None \<Rightarrow> Some s
      | Some proc \<Rightarrow>
          if state (procs s proc) \<noteq> PROCESS_READY then Some s
          else (case current_algorithm s of
                  SCHED_ROUND_ROBIN \<Rightarrow> Some (add_round_robin proc s)
                | SCHED_PRIORITY \<Rightarrow> Some (add_priority proc s)
                | SCHED_CFS \<Rightarrow> add_cfs proc s))"

text \<open>\<open>scheduler_remove_process\<close>. The search of the priority queue is a loop over
  \<open>next\<close> pointers; it returns the last values of \<open>prev\<close> and \<open>current\<close>.\<close>

partial_function (option) pq_search ::
  "(ptr \<Rightarrow> process) \<Rightarrow> ptr \<Rightarrow> ptr option \<Rightarrow> ptr option \<Rightarrow> (ptr option \<times> ptr option) option" where
  "pq_search h proc prev current =
     (if current = None then Some (prev, None)
      else if the current \<noteq> proc then pq_search h proc current (p_next (h (the current)))
      else Some (prev, current))"

definition remove_linked :: "ptr \<Rightarrow> kernel \<Rightarrow> kernel" where
  "remove_linked proc s =
     (let s1 = (case p_prev (procs s proc) of
                  Some pv \<Rightarrow> upd_proc pv (\<lambda>p. p\<lparr>p_next := p_next (procs s proc)\<rparr>) s
                | None \<Rightarrow> s\<lparr>ready_queue_head := p_next (procs s proc)\<rparr>)
      in (case p_next (procs s1 proc) of
            Some n \<Rightarrow> upd_proc n (\<lambda>p. p\<lparr>p_prev := p_prev (procs s1 proc)\<rparr>) s1
          | None \<Rightarrow> s1\<lparr>ready_queue_tail := p_prev (procs s1 proc)\<rparr>))"

definition remove_priority :: "ptr \<Rightarrow> kernel \<Rightarrow> kernel option" where
  "remove_priority proc s =
     (if priority_val (priority (procs s proc)) < 5 then
        (let i = priority_val (priority (procs s proc)) in
         case pq_search (procs s) proc None (priority_queues s i) of
           None \<Rightarrow> None
         | Some (prev, None) \<Rightarrow> Some s
         | Some (None, Some c) \<Rightarrow>
             Some (s\<lparr>priority_queues := (priority_queues s)(i := p_next (procs s c))\<rparr>)
         | Some (Some pv, Some c) \<Rightarrow>
             Some (upd_proc pv (\<lambda>p. p\<lparr>p_next := p_next (procs s c)\<rparr>) s))
      else Some s)"

definition scheduler_remove_process :: "ptr option \<Rightarrow> kernel \<Rightarrow> kernel option" where
  "scheduler_remove_process po s =
     (case po of
        None \<Rightarrow> Some s
      | Some proc \<Rightarrow>
          (case (case current_algorithm s of
                   SCHED_ROUND_ROBIN \<Rightarrow> Some (remove_linked proc s)
                 | SCHED_CFS \<Rightarrow> Some (remove_linked proc s)
                 | SCHED_PRIORITY \<Rightarrow> remove_priority proc s) of
             None \<Rightarrow> None
           | Some s1 \<Rightarrow>
               Some (upd_proc proc (\<lambda>p. p\<lparr>p_prev := None\<rparr>)
                      (upd_proc proc (\<lambda>p. p\<lparr>p_next := None\<rparr>) s1))))"

text \<open>\<open>scheduler_next\<close>. The loop of the priority case runs over the levels
  \<open>PRIORITY_REALTIME\<close> down to \<open>PRIORITY_IDLE\<close> and stops at the first queue that is
  not empty.\<close>

fun priority_pick :: "nat list \<Rightarrow> kernel \<Rightarrow> ptr option \<times> kernel" where
  "priority_pick [] s = (None, s)"
| "priority_pick (i # rest) s =
     (case priority_queues s i of
        Some nxt \<Rightarrow>
          (let s1 = s\<lparr>priority_queues := (priority_queues s)(i := p_next (procs s nxt))\<rparr>
           in (Some nxt, upd_proc nxt (\<lambda>p. p\<lparr>p_next := None\<rparr>) s1))
      | None \<Rightarrow> priority_pick rest s)"

definition pop_ready_head :: "kernel \<Rightarrow> (ptr option \<times> kernel) option" where
  "pop_ready_head s =
     (case ready_queue_head s of
        None \<Rightarrow> Some (None, s)
      | Some nxt \<Rightarrow>
          (case scheduler_remove_process (Some nxt) s of
             None \<Rightarrow> None
           | Some s1 \<Rightarrow> Some (Some nxt, s1)))"

definition scheduler_next :: "kernel \<Rightarrow> (ptr option \<times> kernel) option" where
  "scheduler_next s =
     (case current_algorithm s of
        SCHED_ROUND_ROBIN \<Rightarrow> pop_ready_head s
      | SCHED_PRIORITY \<Rightarrow> Some (priority_pick [4, 3, 2, 1, 0] s)
      | SCHED_CFS \<Rightarrow> pop_ready_head s)"

text \<open>\<open>get_scheduler_stats\<close> (process.c) refreshes \<open>active_processes\<close> and returns the
  address of the static statistics.\<close>

definition get_scheduler_stats :: "kernel \<Rightarrow> kernel" where
  "get_scheduler_stats s =
     s\<lparr>global_sched_stats :=
         (global_sched_stats s)\<lparr>active_processes := ucast (active_process_count s)\<rparr>\<rparr>"

text \<open>\<open>context_switch\<close>: the bookkeeping on the process structures. The register
  transfer of \<open>context_switch_asm\<close> is the platform's and is not modelled.\<close>

definition context_switch :: "ptr option \<Rightarrow> ptr option \<Rightarrow> kernel \<Rightarrow> kernel" where
  "context_switch from to s =
     (case to of
        None \<Rightarrow> s
      | Some t \<Rightarrow>
          (let s1 = get_scheduler_stats s;
               s2 = s1\<lparr>global_sched_stats :=
                         (global_sched_stats s1)\<lparr>st_context_switches :=
                            st_context_switches (global_sched_stats s1) + 1\<rparr>\<rparr>;
               s3 = (case from of
                       None \<Rightarrow> s2
                     | Some f \<Rightarrow>
                         upd_proc f (\<lambda>p. p\<lparr>state := (if state p = PROCESS_RUNNING
                                                       then PROCESS_READY else state p)\<rparr>)
                           (upd_proc f (\<lambda>p. p\<lparr>context_switches := context_switches p + 1\<rparr>) s2));
               s4 = upd_proc t (\<lambda>p. p\<lparr>state := PROCESS_RUNNING\<rparr>) s3;
               s5 = upd_proc t (\<lambda>p. p\<lparr>last_scheduled := timer_get_ticks s4\<rparr>) s4
           in s5\<lparr>running_process := Some t\<rparr>))"

definition scheduler_yield :: "kernel \<Rightarrow> kernel option" where
  "scheduler_yield s =
     (case process_get_current s of
        None \<Rightarrow> Some s
      | Some current \<Rightarrow>
          (case (if state (procs s current) = PROCESS_RUNNING
                 then scheduler_add_process (Some current)
                        (upd_proc current (\<lambda>p. p\<lparr>state := PROCESS_READY\<rparr>) s)
                 else Some s) of
             None \<Rightarrow> None
           | Some s1 \<Rightarrow>
               (case scheduler_next s1 of
                  None \<Rightarrow> None
                | Some (None, s2) \<Rightarrow> Some s2
                | Some (Some nxt, s2) \<Rightarrow> Some (context_switch (Some current) (Some nxt) s2))))"


text \<open>\<open>process_wake\<close> and \<open>process_sleep\<close> (process.c). \<open>sleep_until\<close> is a
  \<open>uint32_t\<close>, the tick counter a \<open>uint64_t\<close>: the sum is computed on 64 bits and
  stored on 32.\<close>

definition process_wake :: "ptr option \<Rightarrow> kernel \<Rightarrow> kernel" where
  "process_wake po s =
     (case po of
        None \<Rightarrow> s
      | Some proc \<Rightarrow>
          if state (procs s proc) \<noteq> PROCESS_SLEEPING then s
          else upd_proc proc (\<lambda>p. p\<lparr>sleep_until := 0\<rparr>)
                 (upd_proc proc (\<lambda>p. p\<lparr>state := PROCESS_READY\<rparr>) s))"

definition sleep_mark :: "ptr \<Rightarrow> u32 \<Rightarrow> kernel \<Rightarrow> kernel" where
  "sleep_mark current milliseconds s =
     (let s1 = upd_proc current (\<lambda>p. p\<lparr>state := PROCESS_SLEEPING\<rparr>) s
      in upd_proc current
           (\<lambda>p. p\<lparr>sleep_until := ucast (timer_get_ticks s1 + ucast (milliseconds div 10))\<rparr>) s1)"

definition process_sleep :: "u32 \<Rightarrow> kernel \<Rightarrow> kernel option" where
  "process_sleep milliseconds s =
     (case current_process s of
        None \<Rightarrow> Some s
      | Some current \<Rightarrow> scheduler_yield (sleep_mark current milliseconds s))"

text \<open>\<open>scheduler_tick\<close>: the loop over the process table, then the preemption.\<close>

fun wake_sleepers :: "nat list \<Rightarrow> u64 \<Rightarrow> kernel \<Rightarrow> kernel option" where
  "wake_sleepers [] current_time s = Some s"
| "wake_sleepers (i # rest) current_time s =
     (case process_table s i of
        None \<Rightarrow> wake_sleepers rest current_time s
      | Some proc \<Rightarrow>
          if state (procs s proc) = PROCESS_SLEEPING
             \<and> ucast (sleep_until (procs s proc)) \<le> current_time
          then (case scheduler_add_process (Some proc) (process_wake (Some proc) s) of
                  None \<Rightarrow> None
                | Some s1 \<Rightarrow> wake_sleepers rest current_time s1)
          else wake_sleepers rest current_time s)"



section \<open>Process lifecycle (kernel/process/process.c)\<close>

text \<open>
  \<open>process_get_next_pid\<close>. \<open>next_pid++\<close> followed by the wrap to 1 is \<open>advance_next_pid\<close>.
  The loop reads \<open>process_table[pid]\<close> before it tests \<open>pid < MAX_PROCESSES\<close>; the
  table is a function of the index here, so the read has a value at every index. The
  local \<open>pid\<close> is \<open>cand\<close>. The loop has no bound: \<open>None\<close> is that it does not return.
\<close>

definition advance_next_pid :: "kernel \<Rightarrow> kernel" where
  "advance_next_pid s =
     (let s1 = s\<lparr>next_pid := next_pid s + 1\<rparr>
      in if MAX_PROCESSES \<le> unat (next_pid s1) then s1\<lparr>next_pid := 1\<rparr> else s1)"

partial_function (option) pid_probe :: "u32 \<Rightarrow> kernel \<Rightarrow> (u32 \<times> kernel) option" where
  "pid_probe cand s =
     (if process_table s (unat cand) \<noteq> None \<and> unat cand < MAX_PROCESSES
      then pid_probe (next_pid s) (advance_next_pid s)
      else Some (cand, s))"

definition process_get_next_pid :: "kernel \<Rightarrow> (u32 \<times> kernel) option" where
  "process_get_next_pid s = pid_probe (next_pid s) (advance_next_pid s)"

text \<open>
  The memory service is external. What its calls return during one
  \<open>process_create\<close> is an input of the model: \<open>kmalloc\<close> and
  \<open>paging_create_address_space\<close> return a pointer or null, the two \<open>vmm_alloc\<close>
  calls an address or 0. A call that acquires or releases a resource is appended to
  \<open>mem_log\<close>.
\<close>

record extern_results =
  kmalloc_ret :: "ptr option"
  create_address_space_ret :: "nat option"
  stack_alloc_ret :: u64
  heap_alloc_ret :: u64

definition log_event :: "mem_event \<Rightarrow> kernel \<Rightarrow> kernel" where
  "log_event e s = s\<lparr>mem_log := mem_log s @ [e]\<rparr>"

definition kfree :: "ptr \<Rightarrow> kernel \<Rightarrow> kernel" where
  "kfree p s = log_event (Kfree p) s"

definition vmm_free :: "u64 \<Rightarrow> kernel \<Rightarrow> kernel" where
  "vmm_free a s = log_event (VmmFree a) s"

definition paging_destroy_address_space :: "nat \<Rightarrow> kernel \<Rightarrow> kernel" where
  "paging_destroy_address_space d s = log_event (DestroyAddressSpace d) s"

definition vmm_alloc :: "u64 \<Rightarrow> kernel \<Rightarrow> kernel" where
  "vmm_alloc a s = (if a = 0 then s else log_event (VmmAlloc a) s)"

text \<open>The initialisation of the saved context and the registration in the table: the
  tail of \<open>process_create\<close> once every allocation has succeeded.\<close>

definition init_context :: "ptr \<Rightarrow> u64 \<Rightarrow> kernel \<Rightarrow> kernel" where
  "init_context proc entry_point s =
     upd_proc proc (\<lambda>p. p\<lparr>p_context := zero_context\<lparr>
        rip := entry_point,
        rsp := stack_base p + stack_size p - 16,
        rflags := 0x202, cs := 0x08, ds := 0x10,
        cr3 := (case page_directory p of Some d \<Rightarrow> of_nat d | None \<Rightarrow> 0)\<rparr>\<rparr>) s"

definition register_process :: "ptr \<Rightarrow> kernel \<Rightarrow> kernel" where
  "register_process proc s =
     (let s1 = s\<lparr>process_table := (process_table s)(unat (pid (procs s proc)) := Some proc)\<rparr>;
          s2 = s1\<lparr>active_process_count := active_process_count s1 + 1\<rparr>;
          s3 = s2\<lparr>global_sched_stats := (global_sched_stats s2)\<lparr>total_processes :=
                     total_processes (global_sched_stats s2) + 1\<rparr>\<rparr>
      in upd_proc proc (\<lambda>p. p\<lparr>state := PROCESS_READY\<rparr>) s3)"

definition init_metadata :: "ptr \<Rightarrow> string \<Rightarrow> process_priority_t \<Rightarrow> kernel \<Rightarrow> kernel" where
  "init_metadata proc nm prio s =
     (let s1 = upd_proc proc (\<lambda>p. p\<lparr>name := take 63 nm\<rparr>) s;
          s2 = upd_proc proc (\<lambda>p. p\<lparr>state := PROCESS_CREATED, priority := prio,
                 time_slice := DEFAULT_TIME_SLICE, creation_time := timer_get_ticks s1,
                 parent := current_process s1\<rparr>) s1
      in upd_proc proc (\<lambda>p. p\<lparr>ppid := (case current_process s2 of
                                            Some c \<Rightarrow> pid (procs s2 c) | None \<Rightarrow> 0)\<rparr>) s2)"

definition process_create ::
  "string \<Rightarrow> u64 \<Rightarrow> process_priority_t \<Rightarrow> extern_results \<Rightarrow> kernel
     \<Rightarrow> (ptr option \<times> kernel) option" where
  "process_create nm entry_point prio ext s =
     (case kmalloc_ret ext of
        None \<Rightarrow> Some (None, s)
      | Some proc \<Rightarrow>
          (let s0 = log_event (Kmalloc proc) s;
               s1 = s0\<lparr>procs := (procs s0)(proc := zero_process)\<rparr>
           in case process_get_next_pid s1 of
                None \<Rightarrow> None
              | Some (new_pid, s2) \<Rightarrow>
                  (let s3 = upd_proc proc (\<lambda>p. p\<lparr>pid := new_pid\<rparr>) s2
                   in if MAX_PROCESSES \<le> unat (pid (procs s3 proc))
                      then Some (None, kfree proc s3)
                      else
                       (let s4 = init_metadata proc nm prio s3
                        in case create_address_space_ret ext of
                             None \<Rightarrow> Some (None, kfree proc s4)
                           | Some d \<Rightarrow>
                              (let s5 = upd_proc proc (\<lambda>p. p\<lparr>page_directory := Some d\<rparr>)
                                          (log_event (CreateAddressSpace d) s4);
                                   s6 = upd_proc proc (\<lambda>p. p\<lparr>stack_size := PROCESS_STACK_SIZE\<rparr>) s5;
                                   s7 = upd_proc proc (\<lambda>p. p\<lparr>stack_base := stack_alloc_ret ext\<rparr>)
                                          (vmm_alloc (stack_alloc_ret ext) s6)
                               in if stack_base (procs s7 proc) = 0
                                  then Some (None, kfree proc (paging_destroy_address_space d s7))
                                  else
                                   (let s8 = upd_proc proc (\<lambda>p. p\<lparr>heap_size := PROCESS_HEAP_SIZE\<rparr>) s7;
                                        s9 = upd_proc proc (\<lambda>p. p\<lparr>heap_base := heap_alloc_ret ext\<rparr>)
                                               (vmm_alloc (heap_alloc_ret ext) s8)
                                    in if heap_base (procs s9 proc) = 0
                                       then Some (None,
                                              kfree proc (paging_destroy_address_space d
                                                (vmm_free (stack_base (procs s9 proc)) s9)))
                                       else Some (Some proc,
                                              register_process proc
                                                (init_context proc entry_point s9))))))))"


section \<open>Message passing (kernel/process/ipc.c)\<close>











section \<open>The advanced scheduler (kernel/smp/advanced_scheduler.c)\<close>

datatype scheduling_algorithm_t =
    SCHED_ALGORITHM_ROUND_ROBIN | SCHED_ALGORITHM_CFS | SCHED_ALGORITHM_REALTIME
  | SCHED_ALGORITHM_NEURAL | SCHED_ALGORITHM_CYBERPUNK

text \<open>\<open>struct neural_runqueue\<close>; the arrays of six buckets are functions from the index.
  The fields \<open>current\<close>, \<open>clock\<close> and \<open>time_slice\<close> are \<open>rq_current\<close>, \<open>rq_clock\<close> and
  \<open>rq_time_slice\<close> here.\<close>

record neural_runqueue =
  active_queue :: "nat \<Rightarrow> ptr option"
  expired_queue :: "nat \<Rightarrow> ptr option"
  queue_bitmap :: u32
  process_count :: u32
  total_weight :: u64
  rq_current :: "ptr option"
  idle_task :: "ptr option"
  rq_clock :: u64
  algorithm :: scheduling_algorithm_t
  rq_time_slice :: u32

text \<open>The per-CPU run queues (\<open>neural_runqueues[64]\<close>) and the memory of the process
  structures they link.\<close>

record sched_core =
  pcbs :: "ptr \<Rightarrow> process"
  neural_runqueues :: "nat \<Rightarrow> neural_runqueue"

text \<open>
  What the scheduler takes from outside: the value of \<open>get_system_time()\<close>, whether
  the \<open>kmalloc\<close> of a statistics block succeeds, and the integer value of
  \<open>PRIORITY_CRITICAL\<close>, an enumerator that \<open>priority_to_nice\<close> names and that
  include/kernel/process.h does not declare.
\<close>

record sched_extern =
  system_time :: u64
  stats_alloc_ok :: bool
  priority_critical :: nat

definition priority_to_nice :: "sched_extern \<Rightarrow> process_priority_t \<Rightarrow> int" where
  "priority_to_nice ext p =
     (if priority_val p = priority_critical ext then - 20
      else (case p of
              PRIORITY_HIGH \<Rightarrow> - 10
            | PRIORITY_NORMAL \<Rightarrow> 0
            | PRIORITY_LOW \<Rightarrow> 10
            | PRIORITY_IDLE \<Rightarrow> 19
            | PRIORITY_REALTIME \<Rightarrow> 0))"

fun neural_priority_to_weight :: "neural_priority_t \<Rightarrow> u64" where
  "neural_priority_to_weight NEURAL_PRIORITY_CRITICAL = 88761"
| "neural_priority_to_weight NEURAL_PRIORITY_HIGH = 29154"
| "neural_priority_to_weight NEURAL_PRIORITY_NORMAL = 1024"
| "neural_priority_to_weight NEURAL_PRIORITY_LOW = 335"
| "neural_priority_to_weight NEURAL_PRIORITY_BACKGROUND = 110"
| "neural_priority_to_weight NEURAL_PRIORITY_IDLE = 15"

text \<open>\<open>sched_init_process_stats\<close>, on the block just allocated.\<close>

definition sched_init_process_stats :: "sched_extern \<Rightarrow> process \<Rightarrow> process_sched_stats" where
  "sched_init_process_stats ext p =
     \<lparr> runtime = 0, wait_time = 0, neural_cycles = 0, ss_context_switches = 0,
       preemptions = 0, last_runtime = system_time ext, vruntime = 0,
       neural_class = NEURAL_PRIORITY_NORMAL, nice_value = priority_to_nice ext (priority p),
       deadline = 0, neural_affinity = 0xFFFFFFFF \<rparr>"

definition upd_pcb :: "ptr \<Rightarrow> (process \<Rightarrow> process) \<Rightarrow> sched_core \<Rightarrow> sched_core" where
  "upd_pcb p f s = s\<lparr>pcbs := (pcbs s)(p := f (pcbs s p))\<rparr>"

definition upd_rq :: "nat \<Rightarrow> (neural_runqueue \<Rightarrow> neural_runqueue) \<Rightarrow> sched_core \<Rightarrow> sched_core" where
  "upd_rq cpu f s = s\<lparr>neural_runqueues := (neural_runqueues s)(cpu := f (neural_runqueues s cpu))\<rparr>"

text \<open>The bucket of a process: its priority, clamped to 5.\<close>

definition bucket_of :: "process \<Rightarrow> nat" where
  "bucket_of p = (if 6 \<le> priority_val (priority p) then 5 else priority_val (priority p))"

definition sched_add_process_to_runqueue ::
  "sched_extern \<Rightarrow> ptr option \<Rightarrow> u8 \<Rightarrow> sched_core \<Rightarrow> sched_core" where
  "sched_add_process_to_runqueue ext po cpu_id s =
     (case po of
        None \<Rightarrow> s
      | Some proc \<Rightarrow>
          if 64 \<le> cpu_id then s
          else
            (let cpu = unat cpu_id;
                 prio = bucket_of (pcbs s proc);
                 s1 = upd_pcb proc
                        (\<lambda>p. p\<lparr>next_in_queue := active_queue (neural_runqueues s cpu) prio\<rparr>) s;
                 s2 = upd_rq cpu (\<lambda>rq. rq\<lparr>active_queue := (active_queue rq)(prio := Some proc)\<rparr>) s1;
                 s3 = upd_rq cpu (\<lambda>rq. rq\<lparr>process_count := process_count rq + 1\<rparr>) s2;
                 s4 = upd_rq cpu (\<lambda>rq. rq\<lparr>queue_bitmap := queue_bitmap rq OR push_bit prio 1\<rparr>) s3
             in if sched_stats (pcbs s4 proc) = None \<and> stats_alloc_ok ext
                then upd_pcb proc
                       (\<lambda>p. p\<lparr>sched_stats := Some (sched_init_process_stats ext p)\<rparr>) s4
                else s4))"

text \<open>\<open>sched_remove_process_from_runqueue\<close>. The search for the predecessor follows
  \<open>next_in_queue\<close> and need not end on a cyclic list.\<close>

partial_function (option) find_predecessor ::
  "(ptr \<Rightarrow> process) \<Rightarrow> ptr \<Rightarrow> ptr option \<Rightarrow> ptr option option" where
  "find_predecessor h proc prev =
     (if prev = None then Some None
      else if next_in_queue (h (the prev)) \<noteq> Some proc
           then find_predecessor h proc (next_in_queue (h (the prev)))
           else Some prev)"

definition sched_remove_process_from_runqueue ::
  "ptr option \<Rightarrow> u8 \<Rightarrow> sched_core \<Rightarrow> sched_core option" where
  "sched_remove_process_from_runqueue po cpu_id s =
     (case po of
        None \<Rightarrow> Some s
      | Some proc \<Rightarrow>
          if 64 \<le> cpu_id then Some s
          else
            (let cpu = unat cpu_id;
                 prio = bucket_of (pcbs s proc)
             in case (if active_queue (neural_runqueues s cpu) prio = Some proc
                      then Some (upd_rq cpu (\<lambda>rq. rq\<lparr>active_queue :=
                                   (active_queue rq)(prio := next_in_queue (pcbs s proc))\<rparr>) s)
                      else (case find_predecessor (pcbs s) proc
                                   (active_queue (neural_runqueues s cpu) prio) of
                              None \<Rightarrow> None
                            | Some None \<Rightarrow> Some s
                            | Some (Some prev) \<Rightarrow>
                                Some (upd_pcb prev
                                  (\<lambda>p. p\<lparr>next_in_queue := next_in_queue (pcbs s proc)\<rparr>) s))) of
                  None \<Rightarrow> None
                | Some s1 \<Rightarrow>
                    (let s2 = upd_pcb proc (\<lambda>p. p\<lparr>next_in_queue := None\<rparr>) s1;
                         s3 = upd_rq cpu (\<lambda>rq. rq\<lparr>process_count := process_count rq - 1\<rparr>) s2
                     in if active_queue (neural_runqueues s3 cpu) prio = None
                        then Some (upd_rq cpu (\<lambda>rq. rq\<lparr>queue_bitmap :=
                                      queue_bitmap rq AND NOT (push_bit prio 1)\<rparr>) s3)
                        else Some s3)))"

text \<open>
  \<open>realtime_pick_next_task\<close>: the inner loop walks one bucket with the pair
  (\<open>earliest_deadline\<close>, \<open>earliest_time\<close>); the outer loop runs over the buckets 0 and 1.
\<close>

definition edf_step :: "(ptr \<Rightarrow> process) \<Rightarrow> ptr \<Rightarrow> ptr option \<times> u64 \<Rightarrow> ptr option \<times> u64" where
  "edf_step h proc acc =
     (case sched_stats (h proc) of
        None \<Rightarrow> acc
      | Some st \<Rightarrow>
          if 0 < deadline st \<and> deadline st < snd acc then (Some proc, deadline st) else acc)"

partial_function (option) edf_scan ::
  "(ptr \<Rightarrow> process) \<Rightarrow> ptr option \<Rightarrow> ptr option \<times> u64 \<Rightarrow> (ptr option \<times> u64) option" where
  "edf_scan h proc acc =
     (if proc = None then Some acc
      else edf_scan h (next_in_queue (h (the proc))) (edf_step h (the proc) acc))"

fun edf_buckets ::
  "(ptr \<Rightarrow> process) \<Rightarrow> neural_runqueue \<Rightarrow> nat list \<Rightarrow> ptr option \<times> u64
     \<Rightarrow> (ptr option \<times> u64) option" where
  "edf_buckets h rq [] acc = Some acc"
| "edf_buckets h rq (b # bs) acc =
     (case edf_scan h (active_queue rq b) acc of
        None \<Rightarrow> None
      | Some acc1 \<Rightarrow> edf_buckets h rq bs acc1)"

definition realtime_pick_next_task :: "(ptr \<Rightarrow> process) \<Rightarrow> neural_runqueue \<Rightarrow> ptr option option" where
  "realtime_pick_next_task h rq =
     (case edf_buckets h rq [0, 1] (None, - 1) of
        None \<Rightarrow> None
      | Some (earliest_deadline, earliest_time) \<Rightarrow> Some earliest_deadline)"

text \<open>
  \<open>neural_pick_next_task\<close>. The score is computed on 64-bit unsigned integers: the
  product wraps, and the division traps when \<open>runtime + 1\<close> wraps to 0, which is the
  result \<open>Inl DivideError\<close> here.
\<close>

datatype fault = DivideError

definition neural_score :: "u64 \<Rightarrow> u64 \<Rightarrow> u64 \<Rightarrow> u64" where
  "neural_score wait weight run = (wait * weight) div (run + 1)"

definition process_score :: "u64 \<Rightarrow> process_sched_stats \<Rightarrow> u64" where
  "process_score current_time st =
     neural_score (current_time - last_runtime st) (neural_priority_to_weight (neural_class st))
       (runtime st)"

definition neural_step ::
  "(ptr \<Rightarrow> process) \<Rightarrow> u64 \<Rightarrow> ptr \<Rightarrow> ptr option \<times> u64 \<Rightarrow> fault + ptr option \<times> u64" where
  "neural_step h current_time proc acc =
     (case sched_stats (h proc) of
        None \<Rightarrow> Inr acc
      | Some st \<Rightarrow>
          if runtime st + 1 = 0 then Inl DivideError
          else if snd acc < process_score current_time st
               then Inr (Some proc, process_score current_time st)
               else Inr acc)"

partial_function (option) neural_scan ::
  "(ptr \<Rightarrow> process) \<Rightarrow> u64 \<Rightarrow> ptr option \<Rightarrow> ptr option \<times> u64
     \<Rightarrow> (fault + ptr option \<times> u64) option" where
  "neural_scan h current_time proc acc =
     (if proc = None then Some (Inr acc)
      else (case neural_step h current_time (the proc) acc of
              Inl e \<Rightarrow> Some (Inl e)
            | Inr acc1 \<Rightarrow> neural_scan h current_time (next_in_queue (h (the proc))) acc1))"

fun neural_buckets ::
  "(ptr \<Rightarrow> process) \<Rightarrow> u64 \<Rightarrow> neural_runqueue \<Rightarrow> nat list \<Rightarrow> ptr option \<times> u64
     \<Rightarrow> (fault + ptr option \<times> u64) option" where
  "neural_buckets h current_time rq [] acc = Some (Inr acc)"
| "neural_buckets h current_time rq (b # bs) acc =
     (case neural_scan h current_time (active_queue rq b) acc of
        None \<Rightarrow> None
      | Some (Inl e) \<Rightarrow> Some (Inl e)
      | Some (Inr acc1) \<Rightarrow> neural_buckets h current_time rq bs acc1)"

definition neural_pick_next_task ::
  "sched_extern \<Rightarrow> (ptr \<Rightarrow> process) \<Rightarrow> neural_runqueue \<Rightarrow> (fault + ptr option) option" where
  "neural_pick_next_task ext h rq =
     (case neural_buckets h (system_time ext) rq [0, 1, 2, 3, 4, 5] (None, 0) of
        None \<Rightarrow> None
      | Some (Inl e) \<Rightarrow> Some (Inl e)
      | Some (Inr (best_proc, best_score)) \<Rightarrow> Some (Inr best_proc))"

section \<open>Predicates and concrete states used in the statements\<close>

text \<open>A PID that \<open>process_get_next_pid\<close> hands out, 1 to \<open>MAX_PROCESSES - 1\<close>; and a
  table with no free slot among those.\<close>

definition pid_in_range :: "u32 \<Rightarrow> bool" where
  "pid_in_range p = (1 \<le> unat p \<and> unat p < MAX_PROCESSES)"

definition table_full :: "kernel \<Rightarrow> bool" where
  "table_full s = list_all (\<lambda>i. process_table s i \<noteq> None) [1..<MAX_PROCESSES]"

text \<open>The state after boot, before any process exists, and a state whose table has
  every slot occupied.\<close>

definition boot_kernel :: kernel where
  "boot_kernel = \<lparr> procs = (\<lambda>_. zero_process),
     messages = (\<lambda>_. \<lparr>sender_pid = 0, msg_size = 0, msg_data = (\<lambda>_. 0), msg_next = None\<rparr>),
     queues = (\<lambda>_. \<lparr>q_head = None, q_tail = None, q_count = 0\<rparr>),
     timer_ticks = 0, current_process = None, next_pid = 1, active_process_count = 0,
     global_sched_stats = \<lparr>total_processes = 0, active_processes = 0, st_context_switches = 0\<rparr>,
     process_table = (\<lambda>_. None),
     current_algorithm = SCHED_ROUND_ROBIN, ready_queue_head = None, ready_queue_tail = None,
     running_process = None, last_schedule_time = 0, time_slice_counter = 0,
     priority_queues = (\<lambda>_. None), mem_log = [] \<rparr>"

definition full_kernel :: kernel where
  "full_kernel = boot_kernel\<lparr>process_table := (\<lambda>i. if i < 256 then Some i else None),
     active_process_count := 256\<rparr>"

definition all_succeed :: extern_results where
  "all_succeed = \<lparr>kmalloc_ret = Some 1000, create_address_space_ret = Some 1,
     stack_alloc_ret = 0x4000, heap_alloc_ret = 0x8000\<rparr>"

text \<open>\<open>probe_distance\<close> measures how far \<open>next_pid\<close> is from a free slot; \<open>heap_fails\<close>
  are allocation results where only the heap allocation fails.\<close>

definition probe_distance :: "nat \<Rightarrow> nat \<Rightarrow> nat" where
  "probe_distance n f = (if n \<le> f then f - n else f + 255 - n)"

definition heap_fails :: extern_results where
  "heap_fails = \<lparr>kmalloc_ret = Some 1000, create_address_space_ret = Some 1,
     stack_alloc_ret = 0x4000, heap_alloc_ret = 0\<rparr>"

text \<open>A state with one running process, PID 1, at tick 100.\<close>

definition sleeper_kernel :: kernel where
  "sleeper_kernel = boot_kernel\<lparr>
     procs := (procs boot_kernel)(1 := zero_process\<lparr>pid := 1, state := PROCESS_RUNNING,
                                                      time_slice := DEFAULT_TIME_SLICE\<rparr>),
     process_table := (process_table boot_kernel)(1 := Some 1),
     current_process := Some 1, next_pid := 2, timer_ticks := 100\<rparr>"

text \<open>
  The ready queue as a list: \<open>islist nxt h ps\<close> says that following \<open>nxt\<close> from \<open>h\<close>
  visits exactly \<open>ps\<close> and ends at null. \<open>ready_queue_is s ps\<close> says that the ready queue
  of \<open>s\<close> links the distinct processes \<open>ps\<close> from head to tail, with the head's \<open>prev\<close>
  null. \<open>add_all\<close> calls \<open>scheduler_add_process\<close> on each process of a list in turn,
  \<open>next_n\<close> calls \<open>scheduler_next\<close> n times and collects what it returns.
\<close>

fun islist :: "(ptr \<Rightarrow> ptr option) \<Rightarrow> ptr option \<Rightarrow> ptr list \<Rightarrow> bool" where
  "islist nxt h [] = (h = None)"
| "islist nxt h (p # ps) = (h = Some p \<and> islist nxt (nxt p) ps)"

definition next_of :: "kernel \<Rightarrow> ptr \<Rightarrow> ptr option" where
  "next_of s p = p_next (procs s p)"

definition ready_queue_is :: "kernel \<Rightarrow> ptr list \<Rightarrow> bool" where
  "ready_queue_is s ps =
     (islist (next_of s) (ready_queue_head s) ps \<and> distinct ps
      \<and> ready_queue_tail s = (if ps = [] then None else Some (last ps))
      \<and> (case ps of [] \<Rightarrow> True | p # rest \<Rightarrow> p_prev (procs s p) = None))"










definition late_kernel :: kernel where
  "late_kernel = sleeper_kernel\<lparr>timer_ticks := 0xFFFFFFFB\<rparr>"




text \<open>Run queues and processes for the statements about the advanced scheduler: an empty
  queue, a process with a statistics block and a deadline, and the queue of CPU 0 after
  adding a real-time process (and then an idle one).\<close>

definition empty_runqueue :: neural_runqueue where
  "empty_runqueue = \<lparr> active_queue = (\<lambda>_. None), expired_queue = (\<lambda>_. None), queue_bitmap = 0,
     process_count = 0, total_weight = 0, rq_current = None, idle_task = None, rq_clock = 0,
     algorithm = SCHED_ALGORITHM_REALTIME, rq_time_slice = 1000000 \<rparr>"

definition with_deadline :: "process_priority_t \<Rightarrow> u64 \<Rightarrow> process" where
  "with_deadline prio d = zero_process\<lparr>state := PROCESS_READY, priority := prio,
     sched_stats := Some \<lparr> runtime = 0, wait_time = 0, neural_cycles = 0, ss_context_switches = 0,
       preemptions = 0, last_runtime = 0, vruntime = 0, neural_class = NEURAL_PRIORITY_NORMAL,
       nice_value = 0, deadline = d, neural_affinity = 0xFFFFFFFF \<rparr>\<rparr>"

definition idle_core :: sched_core where
  "idle_core = \<lparr> pcbs = (\<lambda>_. zero_process)(7 := with_deadline PRIORITY_REALTIME 10,
                                               8 := with_deadline PRIORITY_IDLE 100),
     neural_runqueues = (\<lambda>_. empty_runqueue) \<rparr>"

definition test_extern :: sched_extern where
  "test_extern = \<lparr> system_time = 1000, stats_alloc_ok = True, priority_critical = 5 \<rparr>"

definition realtime_only :: sched_core where
  "realtime_only = sched_add_process_to_runqueue test_extern (Some 7) 0 idle_core"

definition realtime_and_idle :: sched_core where
  "realtime_and_idle = sched_add_process_to_runqueue test_extern (Some 8) 0 realtime_only"

text \<open>The number of entries linked in the six buckets of a run queue, following
  \<open>next_in_queue\<close> (\<open>None\<close> when a chain does not end).\<close>

partial_function (option) chain_length :: "(ptr \<Rightarrow> process) \<Rightarrow> ptr option \<Rightarrow> nat \<Rightarrow> nat option" where
  "chain_length h p n =
     (if p = None then Some n else chain_length h (next_in_queue (h (the p))) (Suc n))"

fun entries_in :: "(ptr \<Rightarrow> process) \<Rightarrow> neural_runqueue \<Rightarrow> nat list \<Rightarrow> nat \<Rightarrow> nat option" where
  "entries_in h rq [] n = Some n"
| "entries_in h rq (b # bs) n =
     (case chain_length h (active_queue rq b) n of
        None \<Rightarrow> None
      | Some n1 \<Rightarrow> entries_in h rq bs n1)"

definition linked_entries :: "sched_core \<Rightarrow> nat \<Rightarrow> nat option" where
  "linked_entries s cpu = entries_in (pcbs s) (neural_runqueues s cpu) [0, 1, 2, 3, 4, 5] 0"

text \<open>The score of a queued process as the scan sees it: 0 for a process without a
  statistics block, which the scan skips.\<close>

definition cand_score :: "(ptr \<Rightarrow> process) \<Rightarrow> u64 \<Rightarrow> ptr \<Rightarrow> u64" where
  "cand_score h t q = (case sched_stats (h q) of None \<Rightarrow> 0 | Some st \<Rightarrow> process_score t st)"

definition best_step :: "(ptr \<Rightarrow> process) \<Rightarrow> u64 \<Rightarrow> ptr \<Rightarrow> ptr option \<times> u64 \<Rightarrow> ptr option \<times> u64" where
  "best_step h t q acc = (if snd acc < cand_score h t q then (Some q, cand_score h t q) else acc)"

text \<open>One step of the scan when no division traps, and the condition that none does;
  \<open>link_of\<close> reads the link of the per-core queue.\<close>

definition no_divide_fault :: "(ptr \<Rightarrow> process) \<Rightarrow> ptr list \<Rightarrow> bool" where
  "no_divide_fault h ps =
     list_all (\<lambda>q. case sched_stats (h q) of None \<Rightarrow> True | Some st \<Rightarrow> runtime st + 1 \<noteq> 0) ps"

definition link_of :: "(ptr \<Rightarrow> process) \<Rightarrow> ptr \<Rightarrow> ptr option" where
  "link_of h p = next_in_queue (h p)"

text \<open>The chains of the run queue \<open>realtime_and_idle\<close>, bucket by bucket.\<close>

definition two_chains :: "nat \<Rightarrow> ptr list" where
  "two_chains b = (if b = 0 then [8] else if b = 4 then [7] else [])"







section \<open>Verification\<close>

subsection \<open>PID probing with a full process table\<close>

lemma pid_probe_only_next_pid_aux:
  assumes "pid_probe c t = Some y"
  shows "snd y = t\<lparr>next_pid := next_pid (snd y)\<rparr>"
  using assms
proof (rule pid_probe.raw_induct[rotated 1,
         where P = "\<lambda>c t y. snd y = t\<lparr>next_pid := next_pid (snd y)\<rparr>"])
  fix probe :: "u32 \<Rightarrow> kernel \<Rightarrow> (u32 \<times> kernel) option" and c t y
  assume IH: "\<And>c t y. probe c t = Some y \<Longrightarrow> snd y = t\<lparr>next_pid := next_pid (snd y)\<rparr>"
    and eq: "(if process_table t (unat c) \<noteq> None \<and> unat c < MAX_PROCESSES
              then probe (next_pid t) (advance_next_pid t) else Some (c, t)) = Some y"
  show "snd y = t\<lparr>next_pid := next_pid (snd y)\<rparr>"
  proof (cases "process_table t (unat c) \<noteq> None \<and> unat c < MAX_PROCESSES")
    case True
    with eq have "probe (next_pid t) (advance_next_pid t) = Some y" by simp
    from IH[OF this] have "snd y = (advance_next_pid t)\<lparr>next_pid := next_pid (snd y)\<rparr>" .
    then show ?thesis
      by (simp add: advance_next_pid_def Let_def split: if_splits)
  next
    case False
    with eq show ?thesis by auto
  qed
qed

lemma pid_probe_only_next_pid:
  "pid_probe cand s = Some (r, s') \<Longrightarrow> s' = s\<lparr>next_pid := next_pid s'\<rparr>"
  using pid_probe_only_next_pid_aux by fastforce

lemma table_full_at: "table_full s \<Longrightarrow> pid_in_range p \<Longrightarrow> process_table s (unat p) \<noteq> None"
  by (auto simp: table_full_def pid_in_range_def list_all_iff)

lemma advance_next_pid_range: "pid_in_range (next_pid s) \<Longrightarrow> pid_in_range (next_pid (advance_next_pid s))"
  apply (auto simp: advance_next_pid_def Let_def pid_in_range_def MAX_PROCESSES_def unat_word_ariths)
  done

lemma advance_table[simp]: "process_table (advance_next_pid s) = process_table s"
  by (simp add: advance_next_pid_def Let_def)

lemma table_full_advance[simp]: "table_full (advance_next_pid s) = table_full s"
  by (simp add: table_full_def)

lemma pid_probe_diverges_aux:
  assumes "pid_probe c t = Some y"
  shows "\<not> (table_full t \<and> pid_in_range c \<and> pid_in_range (next_pid t))"
  using assms
proof (rule pid_probe.raw_induct[rotated 1,
         where P = "\<lambda>c t y. \<not> (table_full t \<and> pid_in_range c \<and> pid_in_range (next_pid t))"])
  fix probe :: "u32 \<Rightarrow> kernel \<Rightarrow> (u32 \<times> kernel) option" and c t y
  assume IH: "\<And>c t y. probe c t = Some y \<Longrightarrow>
                \<not> (table_full t \<and> pid_in_range c \<and> pid_in_range (next_pid t))"
    and eq: "(if process_table t (unat c) \<noteq> None \<and> unat c < MAX_PROCESSES
              then probe (next_pid t) (advance_next_pid t) else Some (c, t)) = Some y"
  show "\<not> (table_full t \<and> pid_in_range c \<and> pid_in_range (next_pid t))"
  proof
    assume a: "table_full t \<and> pid_in_range c \<and> pid_in_range (next_pid t)"
    then have "process_table t (unat c) \<noteq> None \<and> unat c < MAX_PROCESSES"
      using table_full_at by (auto simp: pid_in_range_def)
    with eq have "probe (next_pid t) (advance_next_pid t) = Some y" by simp
    from IH[OF this] a show False
      by (auto simp: advance_next_pid_range)
  qed
qed

lemma pid_probe_diverges:
  assumes "table_full s" "pid_in_range cand" "pid_in_range (next_pid s)"
  shows "pid_probe cand s = None"
  using pid_probe_diverges_aux[of cand s] assms by (cases "pid_probe cand s") auto

lemma process_get_next_pid_diverges:
  assumes "table_full s" "pid_in_range (next_pid s)"
  shows "process_get_next_pid s = None"
  unfolding process_get_next_pid_def
  using assms by (intro pid_probe_diverges) (simp_all add: advance_next_pid_range)

lemma process_create_diverges:
  assumes "table_full s" "pid_in_range (next_pid s)" "kmalloc_ret ext = Some proc"
  shows "process_create nm entry_point prio ext s = None"
proof -
  let ?s1 = "(log_event (Kmalloc proc) s)\<lparr>procs := (procs (log_event (Kmalloc proc) s))(proc := zero_process)\<rparr>"
  have "table_full ?s1" "pid_in_range (next_pid ?s1)"
    using assms by (simp_all add: table_full_def log_event_def)
  then have "process_get_next_pid ?s1 = None" by (rule process_get_next_pid_diverges)
  then show ?thesis using assms(3) by (simp add: process_create_def Let_def)
qed

lemma full_kernel_full: "table_full full_kernel"
  by (simp add: table_full_def full_kernel_def boot_kernel_def list_all_iff MAX_PROCESSES_def)

text \<open>
  C2 (the code departs from the claim). With every slot of the process table occupied
  (slots 1 to 255 are the ones the probing visits), \<open>next_pid\<close> in its range and
  \<open>kmalloc\<close> succeeding, \<open>process_create\<close> does not return: \<open>process_get_next_pid\<close> wraps
  \<open>next_pid\<close> back to 1 before it reaches \<open>MAX_PROCESSES\<close>, so the probing loop never sees
  a PID that is out of range and the "process limit exceeded" branch is never taken.
\<close>

theorem process_create_full_table_diverges:
  "process_create ''p'' 0 PRIORITY_NORMAL all_succeed full_kernel = None"
  by (rule process_create_diverges[OF full_kernel_full])
     (simp_all add: full_kernel_def boot_kernel_def all_succeed_def pid_in_range_def
        MAX_PROCESSES_def)

subsection \<open>Switching the algorithm of the classic scheduler\<close>

text \<open>
  C10. \<open>scheduler_set_algorithm\<close>, for every algorithm, leaves the ready-queue head and
  tail, the running-process pointer and the five priority queues null, and records the
  algorithm; what was queued before is not queued any more: the next
  \<open>scheduler_next\<close> returns null and changes nothing.
\<close>

theorem scheduler_set_algorithm_reinit:
  "ready_queue_head (scheduler_set_algorithm a s) = None
   \<and> ready_queue_tail (scheduler_set_algorithm a s) = None
   \<and> running_process (scheduler_set_algorithm a s) = None
   \<and> map (priority_queues (scheduler_set_algorithm a s)) [0..<5] = replicate 5 None
   \<and> current_algorithm (scheduler_set_algorithm a s) = a
   \<and> scheduler_next (scheduler_set_algorithm a s) = Some (None, scheduler_set_algorithm a s)"
  by (cases a)
     (simp_all add: scheduler_set_algorithm_def scheduler_init_def Let_def scheduler_next_def
        pop_ready_head_def upt_rec numeral_eq_Suc)

subsection \<open>Rollback of \<open>process_create\<close>\<close>

lemma upd_proc_frame [simp]:
  "mem_log (upd_proc p f s) = mem_log s"
  "process_table (upd_proc p f s) = process_table s"
  "next_pid (upd_proc p f s) = next_pid s"
  "active_process_count (upd_proc p f s) = active_process_count s"
  "global_sched_stats (upd_proc p f s) = global_sched_stats s"
  "timer_ticks (upd_proc p f s) = timer_ticks s"
  "current_process (upd_proc p f s) = current_process s"
  "procs (upd_proc p f s) = (procs s)(p := f (procs s p))"
  by (simp_all add: upd_proc_def)

lemma log_event_frame [simp]:
  "mem_log (log_event e s) = mem_log s @ [e]"
  "process_table (log_event e s) = process_table s"
  "next_pid (log_event e s) = next_pid s"
  "active_process_count (log_event e s) = active_process_count s"
  "global_sched_stats (log_event e s) = global_sched_stats s"
  "procs (log_event e s) = procs s"
  by (simp_all add: log_event_def)

lemma init_metadata_frame [simp]:
  "mem_log (init_metadata p nm prio s) = mem_log s"
  "process_table (init_metadata p nm prio s) = process_table s"
  "next_pid (init_metadata p nm prio s) = next_pid s"
  "active_process_count (init_metadata p nm prio s) = active_process_count s"
  "global_sched_stats (init_metadata p nm prio s) = global_sched_stats s"
  by (simp_all add: init_metadata_def Let_def)

lemma process_get_next_pid_frame:
  assumes "process_get_next_pid s = Some (r, s')"
  shows "mem_log s' = mem_log s" "process_table s' = process_table s"
    "active_process_count s' = active_process_count s"
    "global_sched_stats s' = global_sched_stats s"
proof -
  from assms have "s' = (advance_next_pid s)\<lparr>next_pid := next_pid s'\<rparr>"
    unfolding process_get_next_pid_def by (rule pid_probe_only_next_pid)
  then have e: "s' = s\<lparr>next_pid := next_pid s'\<rparr>"
    by (simp add: advance_next_pid_def Let_def split: if_splits)
  show "mem_log s' = mem_log s" by (subst e) simp
  show "process_table s' = process_table s" by (subst e) simp
  show "active_process_count s' = active_process_count s" by (subst e) simp
  show "global_sched_stats s' = global_sched_stats s" by (subst e) simp
qed

lemma unat_advance_next_pid:
  "pid_in_range (next_pid s) \<Longrightarrow>
   unat (next_pid (advance_next_pid s)) = (if unat (next_pid s) = 255 then 1 else unat (next_pid s) + 1)"
  by (auto simp: advance_next_pid_def Let_def pid_in_range_def MAX_PROCESSES_def unat_word_ariths)

lemma pid_probe_terminates:
  assumes "process_table s f = None" "1 \<le> f" "f < MAX_PROCESSES" "pid_in_range (next_pid s)"
  shows "\<exists>r s'. pid_probe cand s = Some (r, s')"
  using assms
proof (induction "probe_distance (unat (next_pid s)) f" arbitrary: s cand rule: less_induct)
  case less
  show ?case
  proof (cases "process_table s (unat cand) \<noteq> None \<and> unat cand < MAX_PROCESSES")
    case False
    then show ?thesis by (subst pid_probe.simps) auto
  next
    case True
    then have step: "pid_probe cand s = pid_probe (next_pid s) (advance_next_pid s)"
      by (subst pid_probe.simps) simp
    show ?thesis
    proof (cases "unat (next_pid s) = f")
      case True
      then have "process_table (advance_next_pid s) (unat (next_pid s)) = None"
        using less.prems by simp
      then have "pid_probe (next_pid s) (advance_next_pid s) = Some (next_pid s, advance_next_pid s)"
        by (subst pid_probe.simps) simp
      with step show ?thesis by simp
    next
      case False
      have r: "pid_in_range (next_pid (advance_next_pid s))"
        using less.prems by (simp add: advance_next_pid_range)
      have "probe_distance (unat (next_pid (advance_next_pid s))) f
              < probe_distance (unat (next_pid s)) f"
        using False less.prems
        by (auto simp: unat_advance_next_pid probe_distance_def pid_in_range_def MAX_PROCESSES_def)
      from less.hyps[OF this _ less.prems(2,3) r, of "next_pid s"] less.prems(1) step
      show ?thesis by simp
    qed
  qed
qed

lemma not_full_free_slot:
  "\<not> table_full s \<Longrightarrow> \<exists>f. process_table s f = None \<and> 1 \<le> f \<and> f < MAX_PROCESSES"
  by (auto simp: table_full_def list_all_iff)

lemma process_get_next_pid_terminates:
  assumes "\<not> table_full s" "pid_in_range (next_pid s)"
  shows "\<exists>r s'. process_get_next_pid s = Some (r, s')"
proof -
  from not_full_free_slot[OF assms(1)] obtain f
    where f: "process_table s f = None" "1 \<le> f" "f < MAX_PROCESSES" by blast
  have "process_table (advance_next_pid s) f = None" using f by simp
  from pid_probe_terminates[OF this f(2,3) advance_next_pid_range[OF assms(2)]]
  show ?thesis by (simp add: process_get_next_pid_def)
qed

lemma pid_probe_range_aux:
  assumes "pid_probe c t = Some y"
  shows "pid_in_range c \<and> pid_in_range (next_pid t) \<longrightarrow> pid_in_range (fst y)"
  using assms
proof (rule pid_probe.raw_induct[rotated 1,
         where P = "\<lambda>c t y. pid_in_range c \<and> pid_in_range (next_pid t) \<longrightarrow> pid_in_range (fst y)"])
  fix probe :: "u32 \<Rightarrow> kernel \<Rightarrow> (u32 \<times> kernel) option" and c t y
  assume IH: "\<And>c t y. probe c t = Some y \<Longrightarrow>
                pid_in_range c \<and> pid_in_range (next_pid t) \<longrightarrow> pid_in_range (fst y)"
    and eq: "(if process_table t (unat c) \<noteq> None \<and> unat c < MAX_PROCESSES
              then probe (next_pid t) (advance_next_pid t) else Some (c, t)) = Some y"
  show "pid_in_range c \<and> pid_in_range (next_pid t) \<longrightarrow> pid_in_range (fst y)"
  proof (cases "process_table t (unat c) \<noteq> None \<and> unat c < MAX_PROCESSES")
    case True
    with eq have "probe (next_pid t) (advance_next_pid t) = Some y" by simp
    from IH[OF this] show ?thesis by (simp add: advance_next_pid_range)
  next
    case False
    with eq show ?thesis by auto
  qed
qed

lemma process_get_next_pid_range:
  assumes "process_get_next_pid s = Some (r, s')" "pid_in_range (next_pid s)"
  shows "unat r < MAX_PROCESSES"
proof -
  from assms(1) have "pid_probe (next_pid s) (advance_next_pid s) = Some (r, s')"
    by (simp add: process_get_next_pid_def)
  from pid_probe_range_aux[OF this] assms(2) have "pid_in_range r"
    by (simp add: advance_next_pid_range)
  then show ?thesis by (simp add: pid_in_range_def)
qed

text \<open>
  C1. From a state whose table has a free slot (so that the PID probing returns), if one
  of the allocation steps of \<open>process_create\<close> fails, the call returns null, the process
  table, the active-process count and the statistics are as before the call, and the
  calls it made to the memory service are exactly these, in this order: none when
  \<open>kmalloc\<close> fails; \<open>kmalloc\<close>, \<open>kfree\<close> of the PCB when the address space cannot be
  created; \<open>kmalloc\<close>, \<open>paging_create_address_space\<close>, \<open>paging_destroy_address_space\<close>,
  \<open>kfree\<close> when the stack allocation fails; and \<open>kmalloc\<close>,
  \<open>paging_create_address_space\<close>, \<open>vmm_alloc\<close> of the stack, \<open>vmm_free\<close> of the stack,
  \<open>paging_destroy_address_space\<close>, \<open>kfree\<close> when the heap allocation fails. Every
  resource that was acquired is released, in reverse order of acquisition.
\<close>

theorem process_create_rollback:
  assumes "\<not> table_full s" and "pid_in_range (next_pid s)"
    and "kmalloc_ret ext = None \<or> create_address_space_ret ext = None
         \<or> stack_alloc_ret ext = 0 \<or> heap_alloc_ret ext = 0"
  shows "\<exists>s'. process_create nm entry_point prio ext s = Some (None, s')
           \<and> process_table s' = process_table s
           \<and> active_process_count s' = active_process_count s
           \<and> global_sched_stats s' = global_sched_stats s
           \<and> (kmalloc_ret ext = None \<longrightarrow> mem_log s' = mem_log s)
           \<and> (\<forall>p. kmalloc_ret ext = Some p \<and> create_address_space_ret ext = None
                \<longrightarrow> mem_log s' = mem_log s @ [Kmalloc p, Kfree p])
           \<and> (\<forall>p d. kmalloc_ret ext = Some p \<and> create_address_space_ret ext = Some d
                  \<and> stack_alloc_ret ext = 0
                \<longrightarrow> mem_log s' = mem_log s @ [Kmalloc p, CreateAddressSpace d,
                                               DestroyAddressSpace d, Kfree p])
           \<and> (\<forall>p d. kmalloc_ret ext = Some p \<and> create_address_space_ret ext = Some d
                  \<and> stack_alloc_ret ext \<noteq> 0 \<and> heap_alloc_ret ext = 0
                \<longrightarrow> mem_log s' = mem_log s @ [Kmalloc p, CreateAddressSpace d,
                       VmmAlloc (stack_alloc_ret ext), VmmFree (stack_alloc_ret ext),
                       DestroyAddressSpace d, Kfree p])"
proof (cases "kmalloc_ret ext")
  case None
  then show ?thesis by (simp add: process_create_def)
next
  case (Some p)
  let ?s1 = "(log_event (Kmalloc p) s)\<lparr>procs := (procs (log_event (Kmalloc p) s))(p := zero_process)\<rparr>"
  have "\<not> table_full ?s1" and r1: "pid_in_range (next_pid ?s1)"
    using assms by (simp_all add: table_full_def log_event_def)
  from process_get_next_pid_terminates[OF this] obtain r s2
    where g: "process_get_next_pid ?s1 = Some (r, s2)" by blast
  note fr = process_get_next_pid_frame[OF g]
  from process_get_next_pid_range[OF g r1] have rng: "\<not> MAX_PROCESSES \<le> unat r" by simp
  show ?thesis
  proof (cases "create_address_space_ret ext")
    case None
    with Some g rng fr show ?thesis
      by (simp add: process_create_def Let_def kfree_def)
  next
    case (Some d)
    note d = Some
    show ?thesis
    proof (cases "stack_alloc_ret ext = 0")
      case True
      with \<open>kmalloc_ret ext = Some p\<close> d g rng fr show ?thesis
        by (simp add: process_create_def Let_def kfree_def vmm_alloc_def
              paging_destroy_address_space_def)
    next
      case False
      with assms(3) \<open>kmalloc_ret ext = Some p\<close> d have "heap_alloc_ret ext = 0" by simp
      with False \<open>kmalloc_ret ext = Some p\<close> d g rng fr show ?thesis
        by (simp add: process_create_def Let_def kfree_def vmm_alloc_def vmm_free_def
              paging_destroy_address_space_def)
    qed
  qed
qed

lemma boot_not_full: "\<not> table_full boot_kernel"
  by (auto simp: table_full_def boot_kernel_def MAX_PROCESSES_def list_all_iff intro: bexI[of _ 1])

text \<open>
  The hypotheses of C1 hold at boot with a failing heap allocation: the stack, the
  address space and the PCB are released, in that order.
\<close>

theorem process_create_rollback_witness:
  "\<not> table_full boot_kernel \<and> pid_in_range (next_pid boot_kernel)
   \<and> heap_alloc_ret heap_fails = 0
   \<and> (\<exists>s'. process_create ''init'' 0 PRIORITY_NORMAL heap_fails boot_kernel = Some (None, s')
           \<and> process_table s' = process_table boot_kernel
           \<and> active_process_count s' = active_process_count boot_kernel
           \<and> global_sched_stats s' = global_sched_stats boot_kernel
           \<and> mem_log s' = [Kmalloc 1000, CreateAddressSpace 1, VmmAlloc 0x4000, VmmFree 0x4000,
                            DestroyAddressSpace 1, Kfree 1000])"
proof -
  have r: "pid_in_range (next_pid boot_kernel)"
    by (simp add: boot_kernel_def pid_in_range_def MAX_PROCESSES_def)
  have h: "heap_alloc_ret heap_fails = 0" by (simp add: heap_fails_def)
  then have h': "kmalloc_ret heap_fails = None \<or> create_address_space_ret heap_fails = None
         \<or> stack_alloc_ret heap_fails = 0 \<or> heap_alloc_ret heap_fails = 0" by simp
  have e: "kmalloc_ret heap_fails = Some 1000 \<and> create_address_space_ret heap_fails = Some 1
            \<and> stack_alloc_ret heap_fails \<noteq> 0 \<and> heap_alloc_ret heap_fails = 0"
    "stack_alloc_ret heap_fails = 0x4000" "mem_log boot_kernel = []"
    by (simp_all add: heap_fails_def boot_kernel_def)
  from process_create_rollback[OF boot_not_full r h', of "''init''" 0 PRIORITY_NORMAL]
  obtain s' where s': "process_create ''init'' 0 PRIORITY_NORMAL heap_fails boot_kernel = Some (None, s')"
    "process_table s' = process_table boot_kernel"
    "active_process_count s' = active_process_count boot_kernel"
    "global_sched_stats s' = global_sched_stats boot_kernel"
    and l: "\<forall>p d. kmalloc_ret heap_fails = Some p \<and> create_address_space_ret heap_fails = Some d
                  \<and> stack_alloc_ret heap_fails \<noteq> 0 \<and> heap_alloc_ret heap_fails = 0
                \<longrightarrow> mem_log s' = mem_log boot_kernel @ [Kmalloc p, CreateAddressSpace d,
                       VmmAlloc (stack_alloc_ret heap_fails), VmmFree (stack_alloc_ret heap_fails),
                       DestroyAddressSpace d, Kfree p]"
    by blast
  from l e have "mem_log s' = [Kmalloc 1000, CreateAddressSpace 1, VmmAlloc 0x4000, VmmFree 0x4000,
                            DestroyAddressSpace 1, Kfree 1000]" by simp
  with s' boot_not_full r h show ?thesis by blast
qed

subsection \<open>The deadline set by \<open>process_sleep\<close>\<close>

lemma unat_ucast_32_64: "unat (ucast (w :: u32) :: u64) = unat w"
proof -
  have "unat w < 2 ^ 64" using unsigned_less[of w, where 'a = nat] by simp
  then show ?thesis by (simp add: unsigned_ucast_eq take_bit_nat_eq_self)
qed

lemma unat_ucast_64_32: "unat (ucast (w :: u64) :: u32) = unat w mod 2 ^ 32"
  by (simp add: unsigned_ucast_eq take_bit_eq_mod)

lemma unat_sleep_deadline:
  fixes t :: u64 and ms :: u32
  assumes "unat t + unat ms div 10 < 2 ^ 32"
  shows "unat (ucast (t + ucast (ms div 10)) :: u32) = unat t + unat ms div 10"
proof -
  have a: "unat (ucast (ms div 10) :: u64) = unat ms div 10"
    by (simp add: unat_ucast_32_64 unat_div)
  have b: "unat (t + ucast (ms div 10)) = unat t + unat ms div 10"
    using assms by (simp add: unat_word_ariths a)
  show ?thesis using assms by (simp add: unat_ucast_64_32 b)
qed

lemma sleep_mark_fields:
  "state (procs (sleep_mark c ms s) c) = PROCESS_SLEEPING"
  "sleep_until (procs (sleep_mark c ms s) c) = ucast (timer_ticks s + ucast (ms div 10))"
  "timer_get_ticks (sleep_mark c ms s) = timer_ticks s"
  by (simp_all add: sleep_mark_def upd_proc_def timer_get_ticks_def Let_def)

text \<open>
  C8, as amended. \<open>process_sleep(ms)\<close> marks the current process SLEEPING and, as long
  as the sum fits the 32-bit field, stores the current tick plus \<open>ms / 10\<close> in
  \<open>sleep_until\<close> before it yields; that value is strictly greater than the current tick
  exactly when \<open>ms\<close> is at least 10 (one tick at 100 Hz).
\<close>

theorem process_sleep_deadline:
  assumes "current_process s = Some c"
    and "unat (timer_ticks s) + unat ms div 10 < 2 ^ 32"
  shows "process_sleep ms s = scheduler_yield (sleep_mark c ms s)
       \<and> state (procs (sleep_mark c ms s) c) = PROCESS_SLEEPING
       \<and> unat (sleep_until (procs (sleep_mark c ms s) c)) = unat (timer_ticks s) + unat ms div 10
       \<and> (timer_get_ticks (sleep_mark c ms s) < ucast (sleep_until (procs (sleep_mark c ms s) c)))
           = (10 \<le> ms)"
proof -
  have u: "unat (sleep_until (procs (sleep_mark c ms s) c)) = unat (timer_ticks s) + unat ms div 10"
    using unat_sleep_deadline[OF assms(2)] by (simp add: sleep_mark_fields)
  have "(timer_get_ticks (sleep_mark c ms s) < ucast (sleep_until (procs (sleep_mark c ms s) c)))
          = (unat (timer_ticks s) < unat (sleep_until (procs (sleep_mark c ms s) c)))"
    by (simp add: word_less_nat_alt unat_ucast_32_64 sleep_mark_fields(3))
  also have "\<dots> = (10 \<le> unat ms)" unfolding u by auto
  also have "\<dots> = (10 \<le> ms)" by (simp add: word_le_nat_alt)
  finally show ?thesis using assms(1) u
    by (simp add: process_sleep_def sleep_mark_fields(1))
qed

text \<open>
  The hypotheses of the amended C8 hold for \<open>process_sleep(50)\<close> at tick 100.
\<close>

theorem process_sleep_deadline_witness:
  "current_process sleeper_kernel = Some 1
   \<and> unat (timer_ticks sleeper_kernel) + unat (50 :: u32) div 10 < 2 ^ 32
   \<and> unat (sleep_until (procs (sleep_mark 1 50 sleeper_kernel) 1)) = 105
   \<and> timer_get_ticks (sleep_mark 1 50 sleeper_kernel)
        < ucast (sleep_until (procs (sleep_mark 1 50 sleeper_kernel) 1))"
proof -
  have a: "current_process sleeper_kernel = Some 1" by (simp add: sleeper_kernel_def)
  have b: "unat (timer_ticks sleeper_kernel) + unat (50 :: u32) div 10 < 2 ^ 32"
    by (simp add: sleeper_kernel_def)
  have t: "unat (timer_ticks sleeper_kernel) = 100" by (simp add: sleeper_kernel_def)
  from process_sleep_deadline[OF a b] a b t show ?thesis by simp
qed

text \<open>
  C8 as stated fails: \<open>process_sleep(5)\<close> at tick 100 leaves the process SLEEPING with
  \<open>sleep_until\<close> equal to 100, not greater than the current tick; and at tick
  \<open>2^32 - 5\<close>, \<open>process_sleep(100)\<close> stores the truncated sum 5, far below the current
  tick.
\<close>

theorem process_sleep_short_not_greater:
  "process_sleep 5 sleeper_kernel = Some (sleep_mark 1 5 sleeper_kernel)
   \<and> state (procs (sleep_mark 1 5 sleeper_kernel) 1) = PROCESS_SLEEPING
   \<and> \<not> (timer_get_ticks (sleep_mark 1 5 sleeper_kernel)
          < ucast (sleep_until (procs (sleep_mark 1 5 sleeper_kernel) 1)))
   \<and> state (procs (sleep_mark 1 100 late_kernel) 1) = PROCESS_SLEEPING
   \<and> sleep_until (procs (sleep_mark 1 100 late_kernel) 1) = 5
   \<and> \<not> (timer_get_ticks (sleep_mark 1 100 late_kernel)
          < ucast (sleep_until (procs (sleep_mark 1 100 late_kernel) 1)))"
  by (simp add: process_sleep_def scheduler_yield_def process_get_current_def scheduler_next_def
      pop_ready_head_def sleep_mark_def upd_proc_def late_kernel_def sleeper_kernel_def
      boot_kernel_def timer_get_ticks_def Let_def)

subsection \<open>Round robin: first in, first out\<close>




lemma add_round_robin_fields:
  "ready_queue_tail (add_round_robin proc s) = Some proc"
  "ready_queue_head (add_round_robin proc s) =
     (case ready_queue_tail s of None \<Rightarrow> Some proc | Some t \<Rightarrow> ready_queue_head s)"
  "current_algorithm (add_round_robin proc s) = current_algorithm s"
  "state (procs (add_round_robin proc s) x) = state (procs s x)"
  "sleep_until (procs (add_round_robin proc s) x) = sleep_until (procs s x)"
  "process_table (add_round_robin proc s) = process_table s"
  "timer_ticks (add_round_robin proc s) = timer_ticks s"
  "current_process (add_round_robin proc s) = current_process s"
  "priority_queues (add_round_robin proc s) = priority_queues s"
  by (auto simp: add_round_robin_def upd_proc_def Let_def split: option.splits)






lemma scheduler_next_round_robin_empty:
  assumes "current_algorithm s = SCHED_ROUND_ROBIN" "ready_queue_is s []"
  shows "scheduler_next s = Some (None, s)"
  using assms by (simp add: scheduler_next_def pop_ready_head_def ready_queue_is_def)










subsection \<open>Sleeping and waking\<close>

lemma add_priority_fields:
  "state (procs (add_priority proc s) x) = state (procs s x)"
  "sleep_until (procs (add_priority proc s) x) = sleep_until (procs s x)"
  "time_slice (procs (add_priority proc s) x) = time_slice (procs s x)"
  "process_table (add_priority proc s) = process_table s"
  "timer_ticks (add_priority proc s) = timer_ticks s"
  "current_process (add_priority proc s) = current_process s"
  "current_algorithm (add_priority proc s) = current_algorithm s"
  "ready_queue_head (add_priority proc s) = ready_queue_head s"
  by (auto simp: add_priority_def upd_proc_def Let_def)

lemma add_cfs_front_fields:
  "state (procs (add_cfs_front proc s) x) = state (procs s x)"
  "sleep_until (procs (add_cfs_front proc s) x) = sleep_until (procs s x)"
  "time_slice (procs (add_cfs_front proc s) x) = time_slice (procs s x)"
  "process_table (add_cfs_front proc s) = process_table s"
  "timer_ticks (add_cfs_front proc s) = timer_ticks s"
  "current_process (add_cfs_front proc s) = current_process s"
  "current_algorithm (add_cfs_front proc s) = current_algorithm s"
  "ready_queue_head (add_cfs_front proc s) = Some proc"
  "priority_queues (add_cfs_front proc s) = priority_queues s"
  by (auto simp: add_cfs_front_def upd_proc_def Let_def split: option.splits)

lemma add_cfs_after_fields:
  "state (procs (add_cfs_after cur proc s) x) = state (procs s x)"
  "sleep_until (procs (add_cfs_after cur proc s) x) = sleep_until (procs s x)"
  "time_slice (procs (add_cfs_after cur proc s) x) = time_slice (procs s x)"
  "process_table (add_cfs_after cur proc s) = process_table s"
  "timer_ticks (add_cfs_after cur proc s) = timer_ticks s"
  "current_process (add_cfs_after cur proc s) = current_process s"
  "current_algorithm (add_cfs_after cur proc s) = current_algorithm s"
  "ready_queue_head (add_cfs_after cur proc s) = ready_queue_head s"
  "priority_queues (add_cfs_after cur proc s) = priority_queues s"
  by (auto simp: add_cfs_after_def upd_proc_def Let_def split: option.splits)

lemma add_round_robin_time_slice:
  "time_slice (procs (add_round_robin proc s) x) = time_slice (procs s x)"
  by (auto simp: add_round_robin_def upd_proc_def Let_def split: option.splits)


lemma scheduler_add_process_cases:
  assumes "scheduler_add_process po s = Some s'"
  shows "s' = s \<or> (\<exists>proc. po = Some proc \<and> state (procs s proc) = PROCESS_READY
            \<and> (current_algorithm s = SCHED_ROUND_ROBIN \<and> s' = add_round_robin proc s
                \<or> current_algorithm s = SCHED_PRIORITY \<and> s' = add_priority proc s
                \<or> current_algorithm s = SCHED_CFS \<and> s' = add_cfs_front proc s
                \<or> current_algorithm s = SCHED_CFS \<and> (\<exists>cur. s' = add_cfs_after cur proc s)))"
  using assms
  by (auto simp: scheduler_add_process_def add_cfs_def
        split: option.splits if_splits scheduler_algorithm_t.splits)

lemma scheduler_add_process_frame:
  assumes "scheduler_add_process po s = Some s'"
  shows "state (procs s' x) = state (procs s x)"
    "sleep_until (procs s' x) = sleep_until (procs s x)"
    "time_slice (procs s' x) = time_slice (procs s x)"
    "process_table s' = process_table s" "timer_ticks s' = timer_ticks s"
    "current_process s' = current_process s" "current_algorithm s' = current_algorithm s"
  using scheduler_add_process_cases[OF assms]
  by (auto simp: add_round_robin_fields add_round_robin_time_slice add_priority_fields
        add_cfs_front_fields add_cfs_after_fields)


lemma process_wake_fields:
  "process_table (process_wake po s) = process_table s"
  "timer_ticks (process_wake po s) = timer_ticks s"
  "current_process (process_wake po s) = current_process s"
  "current_algorithm (process_wake po s) = current_algorithm s"
  "ready_queue_head (process_wake po s) = ready_queue_head s"
  "priority_queues (process_wake po s) = priority_queues s"
  "time_slice (procs (process_wake po s) x) = time_slice (procs s x)"
  by (auto simp: process_wake_def upd_proc_def split: option.splits)

lemma process_wake_state:
  "state (procs s proc) = PROCESS_SLEEPING \<Longrightarrow>
   state (procs (process_wake (Some proc) s) x) = (if x = proc then PROCESS_READY else state (procs s x))"
  "state (procs s proc) = PROCESS_SLEEPING \<Longrightarrow>
   sleep_until (procs (process_wake (Some proc) s) x) = (if x = proc then 0 else sleep_until (procs s x))"
  by (auto simp: process_wake_def upd_proc_def)

text \<open>One step of the loop of \<open>scheduler_tick\<close> that wakes \<open>proc\<close>.\<close>

lemma wake_step_frame:
  assumes "state (procs s proc) = PROCESS_SLEEPING"
    and "scheduler_add_process (Some proc) (process_wake (Some proc) s) = Some s1"
  shows "state (procs s1 x) = (if x = proc then PROCESS_READY else state (procs s x))"
    "sleep_until (procs s1 x) = (if x = proc then 0 else sleep_until (procs s x))"
    "process_table s1 = process_table s" "timer_ticks s1 = timer_ticks s"
    "current_algorithm s1 = current_algorithm s" "current_process s1 = current_process s"
    "time_slice (procs s1 x) = time_slice (procs s x)"
  using scheduler_add_process_frame[OF assms(2)] assms(1)
  by (simp_all add: process_wake_state process_wake_fields)

lemma wake_sleepers_Cons_cases:
  assumes "wake_sleepers (i # rest) t s = Some s1"
  obtains (skip) "wake_sleepers rest t s = Some s1"
      "process_table s i = None \<or> (\<exists>proc. process_table s i = Some proc
          \<and> \<not> (state (procs s proc) = PROCESS_SLEEPING \<and> ucast (sleep_until (procs s proc)) \<le> t))"
    | (wake) proc sa where "process_table s i = Some proc"
      "state (procs s proc) = PROCESS_SLEEPING" "ucast (sleep_until (procs s proc)) \<le> t"
      "scheduler_add_process (Some proc) (process_wake (Some proc) s) = Some sa"
      "wake_sleepers rest t sa = Some s1"
proof (cases "process_table s i")
  case None
  with assms skip show ?thesis by simp
next
  case (Some proc)
  show ?thesis
  proof (cases "state (procs s proc) = PROCESS_SLEEPING \<and> ucast (sleep_until (procs s proc)) \<le> t")
    case False
    with assms Some have "wake_sleepers rest t s = Some s1" by simp
    with False Some skip show ?thesis by blast
  next
    case True
    with assms Some have
      "(case scheduler_add_process (Some proc) (process_wake (Some proc) s) of
          None \<Rightarrow> None | Some sa \<Rightarrow> wake_sleepers rest t sa) = Some s1" by simp
    then obtain sa where "scheduler_add_process (Some proc) (process_wake (Some proc) s) = Some sa"
      "wake_sleepers rest t sa = Some s1"
      by (cases "scheduler_add_process (Some proc) (process_wake (Some proc) s)") auto
    with True Some wake show ?thesis by blast
  qed
qed

lemma wake_sleepers_table:
  "wake_sleepers is t s = Some s1 \<Longrightarrow> process_table s1 = process_table s"
proof (induction "is" arbitrary: s)
  case Nil
  then show ?case by simp
next
  case (Cons i rest)
  from Cons.prems show ?case
  proof (cases rule: wake_sleepers_Cons_cases)
    case skip
    from Cons.IH[OF skip(1)] show ?thesis .
  next
    case (wake proc sa)
    from Cons.IH[OF wake(5)] wake_step_frame(3)[OF wake(2,4)] show ?thesis by simp
  qed
qed









lemma islist_unique: "islist nxt h ps \<Longrightarrow> islist nxt h qs \<Longrightarrow> ps = qs"
proof (induction ps arbitrary: h qs)
  case Nil
  then show ?case by (cases qs) auto
next
  case (Cons p ps)
  then show ?case by (cases qs) auto
qed







lemma islist_cong:
  "(\<And>p. p \<in> set ps \<Longrightarrow> nxt' p = nxt p) \<Longrightarrow> islist nxt' h ps = islist nxt h ps"
  by (induction ps arbitrary: h) auto


lemma process_wake_priority:
  "priority (procs (process_wake po s) x) = priority (procs s x)"
  by (auto simp: process_wake_def upd_proc_def split: option.splits)




































subsection \<open>Earliest deadline first\<close>

lemma realtime_only_eval:
  "active_queue (neural_runqueues realtime_only 0) = (\<lambda>_. None)(4 := Some 7)"
  "next_in_queue (pcbs realtime_only 7) = None"
  "sched_stats (pcbs realtime_only 7) = sched_stats (with_deadline PRIORITY_REALTIME 10)"
  "process_count (neural_runqueues realtime_only 0) = 1"
  by (simp_all add: realtime_only_def sched_add_process_to_runqueue_def idle_core_def
      empty_runqueue_def with_deadline_def bucket_of_def upd_pcb_def upd_rq_def Let_def
      zero_process_def)

text \<open>
  C5 (the code departs from the claim). \<open>sched_add_process_to_runqueue\<close> puts a process
  in the bucket of its \<open>process_priority_t\<close> value, so a PRIORITY_REALTIME process is in
  bucket 4; \<open>realtime_pick_next_task\<close> scans the buckets 0 and 1, which hold PRIORITY_IDLE
  and PRIORITY_LOW. With only a real-time process (deadline 10) queued it returns null;
  with an idle process of deadline 100 queued as well it returns the idle process.
\<close>

theorem realtime_pick_ignores_realtime_priority:
  "priority (pcbs realtime_only 7) = PRIORITY_REALTIME
   \<and> active_queue (neural_runqueues realtime_only 0) 4 = Some 7
   \<and> realtime_pick_next_task (pcbs realtime_only) (neural_runqueues realtime_only 0) = Some None
   \<and> priority (pcbs realtime_and_idle 8) = PRIORITY_IDLE
   \<and> active_queue (neural_runqueues realtime_and_idle 0) 0 = Some 8
   \<and> realtime_pick_next_task (pcbs realtime_and_idle) (neural_runqueues realtime_and_idle 0)
       = Some (Some 8)"
  by (simp add: realtime_pick_next_task_def edf_scan.simps edf_step_def
      realtime_and_idle_def realtime_only_def sched_add_process_to_runqueue_def idle_core_def
      empty_runqueue_def with_deadline_def bucket_of_def upd_pcb_def upd_rq_def Let_def
      zero_process_def)

subsection \<open>The process count of a run queue\<close>

text \<open>
  C7 (the code departs from the claim). \<open>sched_remove_process_from_runqueue\<close> decrements
  \<open>process_count\<close> whether or not it found the process in the bucket. On the empty run
  queue (count 0, no entry linked) removing a process that is not linked leaves no entry
  linked and the count at \<open>2^32 - 1\<close>.
\<close>

theorem remove_unlinked_breaks_count:
  "linked_entries idle_core 0 = Some 0
   \<and> process_count (neural_runqueues idle_core 0) = 0
   \<and> (\<exists>s'. sched_remove_process_from_runqueue (Some 7) 0 idle_core = Some s'
          \<and> linked_entries s' 0 = Some 0
          \<and> process_count (neural_runqueues s' 0) = 0xFFFFFFFF)"
  by (simp add: linked_entries_def chain_length.simps sched_remove_process_from_runqueue_def
      find_predecessor.simps idle_core_def empty_runqueue_def with_deadline_def bucket_of_def
      upd_pcb_def upd_rq_def Let_def zero_process_def)

lemma add_then_count:
  "linked_entries realtime_only 0 = Some 1 \<and> process_count (neural_runqueues realtime_only 0) = 1"
  by (simp add: linked_entries_def chain_length.simps realtime_only_def
      sched_add_process_to_runqueue_def idle_core_def empty_runqueue_def with_deadline_def
      bucket_of_def upd_pcb_def upd_rq_def Let_def zero_process_def)

subsection \<open>The neural-adaptive score and selection\<close>

lemma neural_score_mono:
  fixes w1 w2 weight run :: u64
  assumes "w1 \<le> w2" "unat w2 * unat weight < 2 ^ 64" "run + 1 \<noteq> 0"
  shows "neural_score w1 weight run \<le> neural_score w2 weight run"
proof -
  have le: "unat w1 \<le> unat w2" using assms(1) by (simp add: word_le_nat_alt)
  then have "unat w1 * unat weight \<le> unat w2 * unat weight" by (rule mult_le_mono1)
  with assms(2) have b1: "unat w1 * unat weight < 2 ^ 64" by linarith
  have m1: "unat (w1 * weight) = unat w1 * unat weight"
    using b1 by (simp add: unat_mult_lem[THEN iffD1])
  have m2: "unat (w2 * weight) = unat w2 * unat weight"
    using assms(2) by (simp add: unat_mult_lem[THEN iffD1])
  have "unat (neural_score w1 weight run) = (unat w1 * unat weight) div unat (run + 1)"
    by (simp add: neural_score_def unat_div m1)
  moreover have "unat (neural_score w2 weight run) = (unat w2 * unat weight) div unat (run + 1)"
    by (simp add: neural_score_def unat_div m2)
  moreover have "(unat w1 * unat weight) div unat (run + 1) \<le> (unat w2 * unat weight) div unat (run + 1)"
    using le by (intro div_le_mono) simp
  ultimately show ?thesis by (simp add: word_le_nat_alt)
qed

lemma neural_step_best_step:
  assumes "no_divide_fault h [q]"
  shows "neural_step h t q acc = Inr (best_step h t q acc)"
  using assms
  by (cases "sched_stats (h q)")
     (auto simp: neural_step_def best_step_def cand_score_def no_divide_fault_def)

lemma neural_scan_fold:
  assumes "islist (link_of h) p ps" "no_divide_fault h ps"
  shows "neural_scan h t p acc = Some (Inr (fold (best_step h t) ps acc))"
  using assms
proof (induction ps arbitrary: p acc)
  case Nil
  then show ?case by (subst neural_scan.simps) simp
next
  case (Cons q ps)
  from Cons.prems(1) have p: "p = Some q" and il0: "islist (link_of h) (link_of h q) ps"
    by simp_all
  from il0 have il: "islist (link_of h) (next_in_queue (h q)) ps"
    by (simp only: link_of_def[of h q])
  from Cons.prems(2) have nf: "no_divide_fault h [q]" "no_divide_fault h ps"
    by (simp_all add: no_divide_fault_def)
  have "neural_scan h t p acc
          = neural_scan h t (next_in_queue (h q)) (best_step h t q acc)"
    by (subst neural_scan.simps) (simp add: p neural_step_best_step[OF nf(1)])
  with Cons.IH[OF il nf(2)] show ?case by simp
qed

lemma neural_buckets_fold:
  assumes "list_all (\<lambda>b. islist (link_of h) (active_queue rq b) (chain b)) bs"
    "no_divide_fault h (concat (map chain bs))"
  shows "neural_buckets h t rq bs acc = Some (Inr (fold (best_step h t) (concat (map chain bs)) acc))"
  using assms
proof (induction bs arbitrary: acc)
  case Nil
  then show ?case by simp
next
  case (Cons b bs)
  from Cons.prems have il: "islist (link_of h) (active_queue rq b) (chain b)"
    and rest: "list_all (\<lambda>b. islist (link_of h) (active_queue rq b) (chain b)) bs"
    and nf: "no_divide_fault h (chain b)" "no_divide_fault h (concat (map chain bs))"
    by (auto simp: no_divide_fault_def)
  from neural_scan_fold[OF il nf(1)] Cons.IH[OF rest nf(2)] show ?case by simp
qed

lemma fold_best_step:
  assumes "fold (best_step h t) ps (b, v) = (r, v')"
  shows "(r = b \<and> v' = v \<and> list_all (\<lambda>q. cand_score h t q \<le> v) ps)
       \<or> (\<exists>p pre post. ps = pre @ p # post \<and> r = Some p \<and> v' = cand_score h t p
             \<and> v < cand_score h t p
             \<and> list_all (\<lambda>q. cand_score h t q < cand_score h t p) pre
             \<and> list_all (\<lambda>q. cand_score h t q \<le> cand_score h t p) post)"
  using assms
proof (induction ps arbitrary: b v)
  case Nil
  then show ?case by simp
next
  case (Cons q ps)
  show ?case
  proof (cases "v < cand_score h t q")
    case True
    then have "best_step h t q (b, v) = (Some q, cand_score h t q)"
      by (simp add: best_step_def)
    with Cons.prems have "fold (best_step h t) ps (Some q, cand_score h t q) = (r, v')"
      by simp
    from Cons.IH[OF this] show ?thesis
    proof
      assume "r = Some q \<and> v' = cand_score h t q \<and> list_all (\<lambda>x. cand_score h t x \<le> cand_score h t q) ps"
      with True have "q # ps = [] @ q # ps \<and> r = Some q \<and> v' = cand_score h t q
             \<and> v < cand_score h t q
             \<and> list_all (\<lambda>x. cand_score h t x < cand_score h t q) []
             \<and> list_all (\<lambda>x. cand_score h t x \<le> cand_score h t q) ps" by simp
      then show ?thesis by blast
    next
      assume "\<exists>p pre post. ps = pre @ p # post \<and> r = Some p \<and> v' = cand_score h t p
             \<and> cand_score h t q < cand_score h t p
             \<and> list_all (\<lambda>x. cand_score h t x < cand_score h t p) pre
             \<and> list_all (\<lambda>x. cand_score h t x \<le> cand_score h t p) post"
      then obtain p pre post where e: "ps = pre @ p # post" "r = Some p" "v' = cand_score h t p"
        "cand_score h t q < cand_score h t p"
        "list_all (\<lambda>x. cand_score h t x < cand_score h t p) pre"
        "list_all (\<lambda>x. cand_score h t x \<le> cand_score h t p) post" by blast
      with True have "q # ps = (q # pre) @ p # post \<and> r = Some p \<and> v' = cand_score h t p
             \<and> v < cand_score h t p
             \<and> list_all (\<lambda>x. cand_score h t x < cand_score h t p) (q # pre)
             \<and> list_all (\<lambda>x. cand_score h t x \<le> cand_score h t p) post" by auto
      then show ?thesis by blast
    qed
  next
    case False
    then have "best_step h t q (b, v) = (b, v)"
      by (simp add: best_step_def)
    with Cons.prems have "fold (best_step h t) ps (b, v) = (r, v')"
      by simp
    from Cons.IH[OF this] show ?thesis
    proof
      assume "r = b \<and> v' = v \<and> list_all (\<lambda>x. cand_score h t x \<le> v) ps"
      with False show ?thesis by auto
    next
      assume "\<exists>p pre post. ps = pre @ p # post \<and> r = Some p \<and> v' = cand_score h t p
             \<and> v < cand_score h t p
             \<and> list_all (\<lambda>x. cand_score h t x < cand_score h t p) pre
             \<and> list_all (\<lambda>x. cand_score h t x \<le> cand_score h t p) post"
      then obtain p pre post where e: "ps = pre @ p # post" "r = Some p" "v' = cand_score h t p"
        "v < cand_score h t p"
        "list_all (\<lambda>x. cand_score h t x < cand_score h t p) pre"
        "list_all (\<lambda>x. cand_score h t x \<le> cand_score h t p) post" by blast
      with False have "q # ps = (q # pre) @ p # post \<and> r = Some p \<and> v' = cand_score h t p
             \<and> v < cand_score h t p
             \<and> list_all (\<lambda>x. cand_score h t x < cand_score h t p) (q # pre)
             \<and> list_all (\<lambda>x. cand_score h t x \<le> cand_score h t p) post" by auto
      then show ?thesis by blast
    qed
  qed
qed

text \<open>
  C9, as amended. The score \<open>(wait_time * class_weight) / (runtime + 1)\<close> is computed on
  64-bit unsigned integers. With the runtime and the class fixed, a larger wait time
  never gives a smaller score as long as the product \<open>wait_time * class_weight\<close> of the
  larger one is below \<open>2^64\<close> (and \<open>runtime + 1\<close> is not 0). Over buckets whose chains
  end (\<open>chain b\<close> lists bucket \<open>b\<close>) and without a zero divisor, the selection returns:
  null when every queued process scores 0; otherwise a process whose score is positive,
  strictly greater than the score of every process scanned before it and at least the
  score of every process scanned after it: the first process of maximum score in scan
  order.
\<close>

theorem neural_score_and_selection:
  assumes "w1 \<le> w2" and "unat w2 * unat (neural_priority_to_weight c) < 2 ^ 64"
    and "run + 1 \<noteq> 0"
    and "list_all (\<lambda>b. islist (link_of h) (active_queue rq b) (chain b)) [0, 1, 2, 3, 4, 5]"
    and "no_divide_fault h (concat (map chain [0, 1, 2, 3, 4, 5]))"
  shows "neural_score w1 (neural_priority_to_weight c) run
           \<le> neural_score w2 (neural_priority_to_weight c) run
       \<and> (\<exists>r. neural_pick_next_task ext h rq = Some (Inr r)
             \<and> (case r of
                  None \<Rightarrow>
                    list_all (\<lambda>q. cand_score h (system_time ext) q = 0)
                      (concat (map chain [0, 1, 2, 3, 4, 5]))
                | Some p \<Rightarrow>
                    (\<exists>pre post. concat (map chain [0, 1, 2, 3, 4, 5]) = pre @ p # post
                       \<and> 0 < cand_score h (system_time ext) p
                       \<and> list_all (\<lambda>q. cand_score h (system_time ext) q
                                          < cand_score h (system_time ext) p) pre
                       \<and> list_all (\<lambda>q. cand_score h (system_time ext) q
                                          \<le> cand_score h (system_time ext) p) post)))"
proof
  show "neural_score w1 (neural_priority_to_weight c) run
           \<le> neural_score w2 (neural_priority_to_weight c) run"
    by (rule neural_score_mono[OF assms(1,2,3)])
next
  let ?t = "system_time ext"
  let ?cands = "concat (map chain [0, 1, 2, 3, 4, 5])"
  obtain r v where f: "fold (best_step h ?t) ?cands (None, 0) = (r, v)"
    by (cases "fold (best_step h ?t) ?cands (None, 0)") auto
  from neural_buckets_fold[OF assms(4,5), of ?t "(None, 0)"] f
  have pick: "neural_pick_next_task ext h rq = Some (Inr r)"
    by (simp add: neural_pick_next_task_def)
  from fold_best_step[OF f]
  have "case r of
          None \<Rightarrow> list_all (\<lambda>q. cand_score h ?t q = 0) ?cands
        | Some p \<Rightarrow>
            (\<exists>pre post. ?cands = pre @ p # post
               \<and> 0 < cand_score h ?t p
               \<and> list_all (\<lambda>q. cand_score h ?t q < cand_score h ?t p) pre
               \<and> list_all (\<lambda>q. cand_score h ?t q \<le> cand_score h ?t p) post)"
  proof
    assume "r = None \<and> v = 0 \<and> list_all (\<lambda>q. cand_score h ?t q \<le> 0) ?cands"
    then show ?thesis by simp
  next
    assume "\<exists>p pre post. ?cands = pre @ p # post \<and> r = Some p \<and> v = cand_score h ?t p
             \<and> 0 < cand_score h ?t p
             \<and> list_all (\<lambda>q. cand_score h ?t q < cand_score h ?t p) pre
             \<and> list_all (\<lambda>q. cand_score h ?t q \<le> cand_score h ?t p) post"
    then obtain p pre post where "?cands = pre @ p # post" "r = Some p"
      "0 < cand_score h ?t p"
      "list_all (\<lambda>q. cand_score h ?t q < cand_score h ?t p) pre"
      "list_all (\<lambda>q. cand_score h ?t q \<le> cand_score h ?t p) post" by blast
    then show ?thesis by (simp only: option.case) blast
  qed
  with pick show "\<exists>r. neural_pick_next_task ext h rq = Some (Inr r)
             \<and> (case r of
                  None \<Rightarrow> list_all (\<lambda>q. cand_score h ?t q = 0) ?cands
                | Some p \<Rightarrow>
                    (\<exists>pre post. ?cands = pre @ p # post
                       \<and> 0 < cand_score h ?t p
                       \<and> list_all (\<lambda>q. cand_score h ?t q < cand_score h ?t p) pre
                       \<and> list_all (\<lambda>q. cand_score h ?t q \<le> cand_score h ?t p) post))"
    by blast
qed

lemma realtime_and_idle_eval:
  "active_queue (neural_runqueues realtime_and_idle 0) = (\<lambda>_. None)(4 := Some 7, 0 := Some 8)"
  "next_in_queue (pcbs realtime_and_idle 7) = None"
  "next_in_queue (pcbs realtime_and_idle 8) = None"
  "sched_stats (pcbs realtime_and_idle 7) = sched_stats (with_deadline PRIORITY_REALTIME 10)"
  "sched_stats (pcbs realtime_and_idle 8) = sched_stats (with_deadline PRIORITY_IDLE 100)"
  by (simp_all add: realtime_and_idle_def realtime_only_def sched_add_process_to_runqueue_def
      idle_core_def empty_runqueue_def with_deadline_def bucket_of_def upd_pcb_def upd_rq_def
      Let_def zero_process_def fun_eq_iff)

text \<open>
  The hypotheses of the amended C9 hold for the wait times 10 and 20 and for the run queue
  \<open>realtime_and_idle\<close>; \<open>neural_pick_tie_first\<close> evaluates the selection there: both
  processes score the same and the one scanned first is returned.
\<close>

theorem neural_score_and_selection_witness:
  "(10 :: u64) \<le> 20
   \<and> unat (20 :: u64) * unat (neural_priority_to_weight NEURAL_PRIORITY_NORMAL) < 2 ^ 64
   \<and> (0 :: u64) + 1 \<noteq> 0
   \<and> list_all (\<lambda>b. islist (link_of (pcbs realtime_and_idle))
                      (active_queue (neural_runqueues realtime_and_idle 0) b) (two_chains b))
        [0, 1, 2, 3, 4, 5]
   \<and> no_divide_fault (pcbs realtime_and_idle) (concat (map two_chains [0, 1, 2, 3, 4, 5]))
   \<and> neural_score 10 (neural_priority_to_weight NEURAL_PRIORITY_NORMAL) 0
        \<le> neural_score 20 (neural_priority_to_weight NEURAL_PRIORITY_NORMAL) 0
   \<and> (\<exists>r. neural_pick_next_task test_extern (pcbs realtime_and_idle)
              (neural_runqueues realtime_and_idle 0) = Some (Inr r))"
proof -
  have a: "(10 :: u64) \<le> 20" by simp
  have b: "unat (20 :: u64) * unat (neural_priority_to_weight NEURAL_PRIORITY_NORMAL) < 2 ^ 64"
    by simp
  have c: "(0 :: u64) + 1 \<noteq> 0" by simp
  have d: "list_all (\<lambda>b. islist (link_of (pcbs realtime_and_idle))
                      (active_queue (neural_runqueues realtime_and_idle 0) b) (two_chains b))
        [0, 1, 2, 3, 4, 5]"
    by (simp add: two_chains_def link_of_def realtime_and_idle_eval)
  have e: "no_divide_fault (pcbs realtime_and_idle) (concat (map two_chains [0, 1, 2, 3, 4, 5]))"
    by (simp add: two_chains_def no_divide_fault_def realtime_and_idle_eval with_deadline_def)
  from neural_score_and_selection[OF a b c d e, of test_extern] a b c d e
  show ?thesis by blast
qed

lemma neural_pick_tie_first:
  "neural_pick_next_task test_extern (pcbs realtime_and_idle)
     (neural_runqueues realtime_and_idle 0) = Some (Inr (Some 8))"
  by (simp add: neural_pick_next_task_def neural_scan.simps neural_step_def process_score_def
      neural_score_def realtime_and_idle_eval with_deadline_def test_extern_def)

text \<open>
  C9 as stated fails twice. The product wraps: with the normal class (weight 1024) and
  runtime 0, the wait time \<open>2^54\<close> scores 0, less than the wait time \<open>2^54 - 1\<close>. And
  a queued process whose score is 0 is never selected: with one process queued and a wait
  time of 0 the selection returns null.
\<close>

theorem neural_score_wraps:
  "(18014398509481983 :: u64) < 18014398509481984
   \<and> neural_score 18014398509481984 (neural_priority_to_weight NEURAL_PRIORITY_NORMAL) 0
       < neural_score 18014398509481983 (neural_priority_to_weight NEURAL_PRIORITY_NORMAL) 0
   \<and> active_queue (neural_runqueues realtime_only 0) 4 = Some 7
   \<and> cand_score (pcbs realtime_only) 0 7 = 0
   \<and> neural_pick_next_task (test_extern\<lparr>system_time := 0\<rparr>) (pcbs realtime_only)
         (neural_runqueues realtime_only 0) = Some (Inr None)"
  by (simp add: neural_pick_next_task_def neural_scan.simps neural_step_def process_score_def
      neural_score_def realtime_only_eval with_deadline_def test_extern_def cand_score_def)

subsection \<open>The round trip of a message\<close>














end
